theory Spec2Isabelle
  imports Complex_Main
begin

section \<open>Python values and the runtime library\<close>

text \<open>
  The benchmark exporter (\<^verbatim>\<open>bench_analysis/export_bench_to_csv.py\<close>) is embedded as
  pure functions. A Python \<^verbatim>\<open>str\<close> is represented by the bytes of its UTF-8 encoding,
  as a \<^typ>\<open>string\<close>: concatenation, comparison, search and splitting at \<^verbatim>\<open>/\<close> then
  act on the bytes as they act on the characters, and \<open>code_points\<close> gives the characters
  themselves where the program counts or classifies them. A Python \<^verbatim>\<open>int\<close> is an
  \<^typ>\<open>int\<close>. Every exception the source catches or lets escape is a value of
  \<open>pyerror\<close>.
\<close>

datatype pyerror =
    JSONDecodeError | AttributeError | TypeError | ValueError | ZeroDivisionError
  | OverflowError | IsADirectoryError | NotADirectoryError | OSError

subsection \<open>Floats\<close>

text \<open>
  A Python \<^verbatim>\<open>float\<close> is an IEEE 754 binary64 value: \<open>Fin x\<close> is the finite value with
  the real number \<open>x\<close> (\<open>Fin 0\<close> is \<open>+0.0\<close>), \<open>NegZero\<close> is \<open>-0.0\<close>, and there are the two
  infinities and NaN.
\<close>

datatype pyfloat = Fin real | NegZero | PInf | NInf | NaN

instantiation pyfloat :: zero
begin

definition zero_pyfloat_def: "0 = Fin 0"

instance ..

end

text \<open>
  Rounding to the nearest binary64 value, ties to the even significand. A real number
  \<open>x\<close> with \<open>2 ^ e \<le> \<bar>x\<bar> < 2 ^ (e + 1)\<close> lies between multiples of \<open>2 ^ (e - 52)\<close> (of
  \<open>2 ^ - 1074\<close> in the subnormal range); from \<open>float_limit\<close>, halfway between the largest
  finite value and \<open>2 ^ 1024\<close>, the rounded value is out of range.
\<close>

definition round_half_even :: "real \<Rightarrow> int" where
  "round_half_even y =
     (if y - of_int \<lfloor>y\<rfloor> < 1 / 2 then \<lfloor>y\<rfloor>
      else if 1 / 2 < y - of_int \<lfloor>y\<rfloor> then \<lfloor>y\<rfloor> + 1
      else if even \<lfloor>y\<rfloor> then \<lfloor>y\<rfloor> else \<lfloor>y\<rfloor> + 1)"

definition binade :: "real \<Rightarrow> int" where
  "binade x = max \<lfloor>log 2 \<bar>x\<bar>\<rfloor> (- 1022)"

definition ulp :: "real \<Rightarrow> real" where
  "ulp x = 2 powi (binade x - 52)"

definition nearest_double :: "real \<Rightarrow> real" where
  "nearest_double x = (if x = 0 then 0 else of_int (round_half_even (x / ulp x)) * ulp x)"

definition float_limit :: real where
  "float_limit = 2 ^ 1024 - 2 ^ 970"

text \<open>
  The float an IEEE operation delivers for the exact result \<open>x\<close>: an infinity when the
  rounded value is out of range, a zero with the sign of \<open>x\<close> when it rounds to zero.
\<close>

definition to_float :: "real \<Rightarrow> pyfloat" where
  "to_float x =
     (if float_limit \<le> x then PInf
      else if x \<le> - float_limit then NInf
      else if nearest_double x = 0 then (if x < 0 then NegZero else Fin 0)
      else Fin (nearest_double x))"

text \<open>
  \<^verbatim>\<open>float(k)\<close> for an int, as the mixed operations apply it: the nearest float, and
  \<^verbatim>\<open>OverflowError\<close> where that is out of range.
\<close>

definition int_to_float :: "int \<Rightarrow> pyerror + pyfloat" where
  "int_to_float k =
     (if float_limit \<le> \<bar>real_of_int k\<bar> then Inl OverflowError
      else Inr (to_float (real_of_int k)))"

text \<open>
  \<^verbatim>\<open>a / b\<close> on two ints: the float nearest to the exact quotient, and
  \<^verbatim>\<open>OverflowError\<close> where that is out of range.
\<close>

definition int_truediv :: "int \<Rightarrow> int \<Rightarrow> pyerror + pyfloat" where
  "int_truediv a b =
     (if b = 0 then Inl ZeroDivisionError
      else if a = 0 then Inr (if b < 0 then NegZero else Fin 0)
      else if float_limit \<le> \<bar>real_of_int a / real_of_int b\<bar> then Inl OverflowError
      else Inr (to_float (real_of_int a / real_of_int b)))"

definition is_neg :: "pyfloat \<Rightarrow> bool" where
  "is_neg v =
     (case v of Fin x \<Rightarrow> x < 0 | NegZero \<Rightarrow> True | NInf \<Rightarrow> True | PInf \<Rightarrow> False
      | NaN \<Rightarrow> False)"

text \<open>
  \<^verbatim>\<open>x / y\<close> on two floats: Python raises for a zero divisor and otherwise divides as
  IEEE 754 does, with an infinity for a quotient out of range.
\<close>

definition float_div :: "pyfloat \<Rightarrow> pyfloat \<Rightarrow> pyerror + pyfloat" where
  "float_div x y =
     (case y of
        Fin b \<Rightarrow>
          if b = 0 then Inl ZeroDivisionError
          else
            (case x of
               Fin a \<Rightarrow>
                 if a = 0 then Inr (if b < 0 then NegZero else Fin 0)
                 else Inr (to_float (a / b))
             | NegZero \<Rightarrow> Inr (if b < 0 then Fin 0 else NegZero)
             | PInf \<Rightarrow> Inr (if b < 0 then NInf else PInf)
             | NInf \<Rightarrow> Inr (if b < 0 then PInf else NInf)
             | NaN \<Rightarrow> Inr NaN)
      | NegZero \<Rightarrow> Inl ZeroDivisionError
      | NaN \<Rightarrow> Inr NaN
      | _ \<Rightarrow>
          (case x of
             Fin a \<Rightarrow> Inr (if is_neg x \<noteq> is_neg y then NegZero else Fin 0)
           | NegZero \<Rightarrow> Inr (if is_neg x \<noteq> is_neg y then NegZero else Fin 0)
           | _ \<Rightarrow> Inr NaN))"

text \<open>\<^verbatim>\<open>x / k\<close> for a float and an int: the int is converted first.\<close>

definition float_truediv_int :: "pyfloat \<Rightarrow> int \<Rightarrow> pyerror + pyfloat" where
  "float_truediv_int x k =
     (case int_to_float k of Inl e \<Rightarrow> Inl e | Inr y \<Rightarrow> float_div x y)"

text \<open>\<^verbatim>\<open>x >= k\<close> for a float and an int: the exact values are compared.\<close>

definition float_ge_int :: "pyfloat \<Rightarrow> int \<Rightarrow> bool" where
  "float_ge_int x k =
     (case x of
        Fin a \<Rightarrow> real_of_int k \<le> a
      | NegZero \<Rightarrow> k \<le> 0
      | PInf \<Rightarrow> True
      | NInf \<Rightarrow> False
      | NaN \<Rightarrow> False)"

text \<open>
  CPython's rendering \<^verbatim>\<open>f"{x:.2f}"\<close>: the exact value rounded to hundredths, ties to
  even, the sign kept also when the digits are all zero.
\<close>

definition digit_char :: "nat \<Rightarrow> char" where
  "digit_char d = ''0123456789'' ! (d mod 10)"

fun decimal_digits :: "nat \<Rightarrow> string" where
  "decimal_digits n =
     (if n < 10 then [digit_char n] else decimal_digits (n div 10) @ [digit_char (n mod 10)])"

declare decimal_digits.simps [simp del]

definition hundredths :: "real \<Rightarrow> nat" where
  "hundredths a = nat (round_half_even (a * 100))"

definition cpython_fmt_2f :: "pyfloat \<Rightarrow> string" where
  "cpython_fmt_2f v =
     (case v of
        Fin x \<Rightarrow>
          (if x < 0 then ''-'' else [])
          @ decimal_digits (hundredths \<bar>x\<bar> div 100) @ ''.''
          @ [digit_char (hundredths \<bar>x\<bar> mod 100 div 10), digit_char (hundredths \<bar>x\<bar> mod 10)]
      | NegZero \<Rightarrow> ''-0.00''
      | PInf \<Rightarrow> ''inf''
      | NInf \<Rightarrow> ''-inf''
      | NaN \<Rightarrow> ''nan'')"

subsection \<open>Characters\<close>

text \<open>
  The characters of a string, as code points: a lead byte announces how many bytes
  encode the character. (A byte list that is not the encoding of a string stands for
  no Python value; \<open>code_points\<close> reads it all the same.)
\<close>

definition utf8_width :: "char \<Rightarrow> nat" where
  "utf8_width b =
     (if (of_char b :: nat) < 192 then 1 else if (of_char b :: nat) < 224 then 2
      else if (of_char b :: nat) < 240 then 3 else 4)"

definition utf8_scalar :: "string \<Rightarrow> nat" where
  "utf8_scalar bs =
     (case bs of
        [] \<Rightarrow> 0
      | b # cs \<Rightarrow>
          foldl (\<lambda>acc c. acc * 64 + of_char c mod 64)
            (if (of_char b :: nat) < 192 then of_char b
             else if (of_char b :: nat) < 224 then of_char b mod 32
             else if (of_char b :: nat) < 240 then of_char b mod 16
             else of_char b mod 8)
            cs)"

function code_points :: "string \<Rightarrow> nat list" where
  "code_points [] = []"
| "code_points (b # bs) =
     utf8_scalar (take (utf8_width b) (b # bs))
     # code_points (drop (utf8_width b) (b # bs))"
  by pat_completeness auto
termination
  by (relation "measure length") (auto simp: utf8_width_def)

text \<open>
  What the Unicode database of the interpreter says of a character: a decimal digit
  with its value (the digits \<open>0\<close> to \<open>9\<close> of any script), another digit (a superscript,
  a circled digit), or no digit. \<^verbatim>\<open>str.isdigit\<close> accepts the first two kinds,
  \<^verbatim>\<open>int\<close> the first only.
\<close>

datatype digit_class = Decimal nat | OtherDigit | NoDigit

datatype json =
    JNull | JBool bool | JInt int | JFloat pyfloat | JStr string
  | JArr "json list" | JObj "(string \<times> json) list"

text \<open>
  A \<open>json\<close> value is what \<^verbatim>\<open>json.load\<close> returns; \<open>JObj\<close> lists the entries of the
  dictionary, each key once.
\<close>

datatype pynum = PyInt int | PyFloat pyfloat

text \<open>
  What the program takes from its interpreter and only passes on is a parameter:
  \<open>strftime_run_id m\<close> is
  \<^verbatim>\<open>datetime.fromtimestamp(m).strftime("%Y%m%d_%H%M%S")\<close>, \<open>isoformat m\<close> is
  \<^verbatim>\<open>datetime.fromtimestamp(m).isoformat()\<close> (both \<open>None\<close> when
  \<^verbatim>\<open>fromtimestamp\<close> raises), \<open>fmt_2f x\<close> is \<^verbatim>\<open>f"{x:.2f}"\<close> (in CPython,
  \<open>cpython_fmt_2f\<close>), \<open>round2 x\<close> is \<^verbatim>\<open>round(x, 2)\<close> on a float, \<open>str_num\<close> is the
  text the csv writer stores for a number, \<open>unicode_digit\<close> classifies the characters
  beyond ASCII, and \<open>int_max_str_digits\<close> is \<^verbatim>\<open>sys.get_int_max_str_digits()\<close>, the
  largest number of digits \<^verbatim>\<open>int\<close> converts (\<open>0\<close> for no limit, and in an interpreter
  that has none).
\<close>

record runtime =
  strftime_run_id :: "real \<Rightarrow> string option"
  isoformat :: "real \<Rightarrow> string option"
  fmt_2f :: "pyfloat \<Rightarrow> string"
  round2 :: "pyfloat \<Rightarrow> pyfloat"
  str_num :: "pynum \<Rightarrow> string"
  unicode_digit :: "nat \<Rightarrow> digit_class"
  int_max_str_digits :: nat

section \<open>The Record and the destination table\<close>

text \<open>
  One dictionary built by \<^verbatim>\<open>process_estimates_file\<close>. The field \<^verbatim>\<open>size\<close> is named
  \<open>size_s\<close> here.
\<close>

record bench_record =
  run_id :: string
  benchmark :: string
  test_name :: string
  operation :: string
  size_s :: string
  median_ns :: pynum
  mean_ns :: pynum
  throughput_ops_sec :: pyfloat
  throughput_pretty :: string
  timestamp :: string
  tag :: string

text \<open>
  The destination file is modelled at the level of the csv module: a file is the list
  of its lines, each a row of fields (\<open>Row\<close>). Every line is complete, terminator
  included, as the csv writer leaves it, so that what is appended starts a new line. A
  file of size zero has no lines. \<open>Missing\<close> is a path that does not exist. Failures
  while writing (of the operating system, of the encoder) are not modelled.

  Reading can fail in two ways. The csv reader raises at a row with a field of more than
  \<open>field_size_limit\<close> characters (\<open>oversize\<close>). And the text layer raises when the file
  cannot be opened or holds bytes that do not decode: \<open>Bad\<close> marks the place in the
  sequence of lines at which that exception reaches the reader. The text layer decodes
  the file chunk by chunk, so the lines that share a chunk with the undecodable bytes
  are lost with it: \<open>Bad\<close> stands for the first line that is not delivered, which may
  come well before the undecodable bytes (a file of one chunk has \<open>Bad\<close> as its first
  line, as has a file that cannot be opened), and what follows \<open>Bad\<close> in the list is
  never read.
\<close>

datatype line = Row "string list" | Bad

datatype dest = Missing | Present "line list"

text \<open>\<^verbatim>\<open>csv.field_size_limit()\<close>, which the program leaves at its default.\<close>

definition field_size_limit :: nat where
  "field_size_limit = 131072"

definition oversize :: "string list \<Rightarrow> bool" where
  "oversize row = list_ex (\<lambda>f. field_size_limit < length (code_points f)) row"

text \<open>
  A path as \<^verbatim>\<open>csv_path.exists()\<close> finds it: \<open>Unreachable\<close> when the test itself
  raises \<^verbatim>\<open>OSError\<close> (a name too long, a directory that may not be searched),
  otherwise the file or its absence.
\<close>

datatype location = Unreachable | Reachable dest

section \<open>export\_to\_csv\<close>

definition key_of :: "bench_record \<Rightarrow> string" where
  "key_of result = run_id result @ '':'' @ test_name result"

text \<open>
  The loop of lines 200--206: \<open>new_results\<close>, \<open>skipped\<close> and the mutated set
  \<open>existing_ids\<close> are threaded through.
\<close>

fun filter_duplicates ::
  "bench_record list \<Rightarrow> bench_record list \<times> nat \<times> string set
     \<Rightarrow> bench_record list \<times> nat \<times> string set" where
  "filter_duplicates [] st = st"
| "filter_duplicates (result # results) (new_results, skipped, existing_ids) =
     (if key_of result \<in> existing_ids
      then filter_duplicates results (new_results, skipped + 1, existing_ids)
      else filter_duplicates results
             (new_results @ [result], skipped, insert (key_of result) existing_ids))"

definition fieldnames :: "string list" where
  "fieldnames =
     [''run_id'', ''benchmark'', ''test_name'', ''operation'', ''size'',
      ''median_ns'', ''mean_ns'', ''throughput_ops_sec'', ''throughput_pretty'',
      ''timestamp'', ''tag'']"

text \<open>
  \<open>field_text\<close> is the text the \<^verbatim>\<open>DictWriter\<close> stores for \<^verbatim>\<open>result[name]\<close>;
  \<open>writerow\<close> lays the fields out in the order of \<open>fieldnames\<close>.
\<close>

definition field_text :: "runtime \<Rightarrow> bench_record \<Rightarrow> string \<Rightarrow> string" where
  "field_text rt result name =
     (if name = ''run_id'' then run_id result
      else if name = ''benchmark'' then benchmark result
      else if name = ''test_name'' then test_name result
      else if name = ''operation'' then operation result
      else if name = ''size'' then size_s result
      else if name = ''median_ns'' then str_num rt (median_ns result)
      else if name = ''mean_ns'' then str_num rt (mean_ns result)
      else if name = ''throughput_ops_sec''
        then str_num rt (PyFloat (throughput_ops_sec result))
      else if name = ''throughput_pretty'' then throughput_pretty result
      else if name = ''timestamp'' then timestamp result
      else if name = ''tag'' then tag result
      else [])"

definition writerow :: "runtime \<Rightarrow> bench_record \<Rightarrow> line" where
  "writerow rt result = Row (map (field_text rt result) fieldnames)"

definition lines_of :: "dest \<Rightarrow> line list" where
  "lines_of d = (case d of Missing \<Rightarrow> [] | Present ls \<Rightarrow> ls)"

text \<open>\<^verbatim>\<open>csv_path.exists() and csv_path.stat().st_size > 0\<close>\<close>

definition file_exists :: "dest \<Rightarrow> bool" where
  "file_exists d = (case d of Missing \<Rightarrow> False | Present ls \<Rightarrow> ls \<noteq> [])"

text \<open>
  What a call leaves behind: the returned count, the number of skipped duplicates it
  prints, the destination file and the (mutated) set \<^verbatim>\<open>existing_ids\<close>.
\<close>

record export_outcome =
  returned :: nat
  skipped_count :: nat
  dest_after :: dest
  ids_after :: "string set"

definition export_to_csv ::
  "runtime \<Rightarrow> bench_record list \<Rightarrow> dest \<Rightarrow> string set \<Rightarrow> export_outcome" where
  "export_to_csv rt results csv_path existing_ids =
     (if results = [] then
        \<lparr>returned = 0, skipped_count = 0, dest_after = csv_path, ids_after = existing_ids\<rparr>
      else
        (case filter_duplicates results ([], 0, existing_ids) of
           (new_results, skipped, ids) \<Rightarrow>
             if new_results = [] then
               \<lparr>returned = 0, skipped_count = skipped, dest_after = csv_path,
                ids_after = ids\<rparr>
             else
               \<lparr>returned = length new_results, skipped_count = skipped,
                dest_after =
                  Present (lines_of csv_path
                           @ (if \<not> file_exists csv_path then [Row fieldnames] else [])
                           @ map (writerow rt) new_results),
                ids_after = ids\<rparr>))"

section \<open>load\_existing\_run\_ids\<close>

text \<open>
  The dictionary a \<^verbatim>\<open>csv.DictReader\<close> builds for one row:
  \<^verbatim>\<open>dict(zip(fieldnames, row))\<close>, then \<^verbatim>\<open>None\<close> for every field name beyond the
  row's length. (The entry under the reader's \<^verbatim>\<open>restkey\<close> is not a string key and is
  never looked up.)
\<close>

definition dict_row :: "string list \<Rightarrow> string list \<Rightarrow> (string \<rightharpoonup> string option)" where
  "dict_row fns row =
     foldl (\<lambda>d k. d(k \<mapsto> None))
       (foldl (\<lambda>d (k, v). d(k \<mapsto> Some v)) Map.empty (zip fns row))
       (drop (length row) fns)"

text \<open>\<^verbatim>\<open>f"{row.get(name, '')}"\<close>\<close>

definition row_get :: "(string \<rightharpoonup> string option) \<Rightarrow> string \<Rightarrow> string" where
  "row_get d name =
     (case d name of None \<Rightarrow> [] | Some None \<Rightarrow> ''None'' | Some (Some v) \<Rightarrow> v)"

definition row_key :: "string list \<Rightarrow> string list \<Rightarrow> string" where
  "row_key fns row =
     row_get (dict_row fns row) ''run_id'' @ '':'' @ row_get (dict_row fns row) ''test_name''"

text \<open>
  The \<^verbatim>\<open>for row in reader\<close> loop inside the \<^verbatim>\<open>try\<close>: the reader skips empty rows;
  where reading raises, the exception leaves the loop with the keys added so far, and
  the flag records that the warning is printed.
\<close>

fun read_rows :: "string list \<Rightarrow> line list \<Rightarrow> string set \<Rightarrow> string set \<times> bool" where
  "read_rows fns [] existing = (existing, False)"
| "read_rows fns (Bad # rest) existing = (existing, True)"
| "read_rows fns (Row row # rest) existing =
     (if oversize row then (existing, True)
      else if row = [] then read_rows fns rest existing
      else read_rows fns rest (insert (row_key fns row) existing))"

text \<open>The first line of the file is the reader's \<^verbatim>\<open>fieldnames\<close>.\<close>

definition read_table :: "line list \<Rightarrow> string set \<times> bool" where
  "read_table ls =
     (case ls of
        [] \<Rightarrow> ({}, False)
      | Bad # rest \<Rightarrow> ({}, True)
      | Row fns # rest \<Rightarrow> if oversize fns then ({}, True) else read_rows fns rest {})"

text \<open>
  \<^verbatim>\<open>csv_path.exists()\<close> is called before the \<^verbatim>\<open>try\<close>: an exception of the test
  escapes, everything after it is caught.
\<close>

definition load_existing_run_ids :: "location \<Rightarrow> pyerror + string set" where
  "load_existing_run_ids csv_path =
     (case csv_path of
        Unreachable \<Rightarrow> Inl OSError
      | Reachable Missing \<Rightarrow> Inr {}
      | Reachable (Present ls) \<Rightarrow> Inr (fst (read_table ls)))"

section \<open>format\_throughput\<close>

text \<open>
  \<open>ns\<close> is whatever the estimates file holds under \<^verbatim>\<open>point_estimate\<close>.
  \<open>py_eq_zero\<close> is \<^verbatim>\<open>ns == 0\<close>; \<open>py_truediv k ns\<close> is \<^verbatim>\<open>k / ns\<close> for an int
  \<open>k\<close> (\<^verbatim>\<open>bool\<close> is a subclass of \<^verbatim>\<open>int\<close>; before dividing by a float the int is
  converted to one).
\<close>

definition py_eq_zero :: "json \<Rightarrow> bool" where
  "py_eq_zero ns =
     (case ns of
        JInt i \<Rightarrow> i = 0
      | JFloat x \<Rightarrow> x = 0 \<or> x = NegZero
      | JBool b \<Rightarrow> \<not> b
      | _ \<Rightarrow> False)"

definition py_truediv :: "int \<Rightarrow> json \<Rightarrow> pyerror + pyfloat" where
  "py_truediv k ns =
     (case ns of
        JInt i \<Rightarrow> int_truediv k i
      | JFloat y \<Rightarrow> (case int_to_float k of Inl e \<Rightarrow> Inl e | Inr x \<Rightarrow> float_div x y)
      | JBool b \<Rightarrow> int_truediv k (if b then 1 else 0)
      | _ \<Rightarrow> Inl TypeError)"

text \<open>Lines 37--44: the display string of a value.\<close>

definition pretty_of :: "runtime \<Rightarrow> pyfloat \<Rightarrow> pyerror + string" where
  "pretty_of rt ops_per_sec =
     (if float_ge_int ops_per_sec 1000000000 then
        (case float_truediv_int ops_per_sec 1000000000 of
           Inl e \<Rightarrow> Inl e | Inr q \<Rightarrow> Inr (fmt_2f rt q @ '' Gops/s''))
      else if float_ge_int ops_per_sec 1000000 then
        (case float_truediv_int ops_per_sec 1000000 of
           Inl e \<Rightarrow> Inl e | Inr q \<Rightarrow> Inr (fmt_2f rt q @ '' Mops/s''))
      else if float_ge_int ops_per_sec 1000 then
        (case float_truediv_int ops_per_sec 1000 of
           Inl e \<Rightarrow> Inl e | Inr q \<Rightarrow> Inr (fmt_2f rt q @ '' Kops/s''))
      else Inr (fmt_2f rt ops_per_sec @ '' ops/s''))"

definition format_throughput ::
  "runtime \<Rightarrow> json \<Rightarrow> int \<Rightarrow> pyerror + (pyfloat \<times> string)" where
  "format_throughput rt ns n =
     (if py_eq_zero ns then Inr (0, ''N/A'')
      else
        (case py_truediv (n * 1000000000) ns of
           Inl e \<Rightarrow> Inl e
         | Inr ops_per_sec \<Rightarrow>
             (case pretty_of rt ops_per_sec of
                Inl e \<Rightarrow> Inl e
              | Inr pretty \<Rightarrow> Inr (ops_per_sec, pretty))))"

text \<open>
  The function of the same name in \<^verbatim>\<open>scripts/parse_bench_results.py\<close>, which returns
  the display string only.
\<close>

definition report_format_throughput :: "runtime \<Rightarrow> json \<Rightarrow> int \<Rightarrow> pyerror + string" where
  "report_format_throughput rt ns n =
     (if py_eq_zero ns then Inr ''N/A''
      else
        (case py_truediv (n * 1000000000) ns of
           Inl e \<Rightarrow> Inl e
         | Inr ops_per_sec \<Rightarrow> pretty_of rt ops_per_sec))"

section \<open>process\_estimates\_file\<close>

text \<open>
  \<open>get_run_id_from_file\<close> (lines 24--27), applied to the modification time
  \<^verbatim>\<open>os.path.getmtime\<close> reports for the file.
\<close>

definition get_run_id_from_file :: "runtime \<Rightarrow> real \<Rightarrow> string option" where
  "get_run_id_from_file rt mtime = strftime_run_id rt mtime"

text \<open>\<^verbatim>\<open>test_name.split('/')\<close>: the list is never empty.\<close>

fun split_on :: "char \<Rightarrow> string \<Rightarrow> string list" where
  "split_on sep [] = [[]]"
| "split_on sep (c # cs) =
     (if c = sep then [] # split_on sep cs
      else (case split_on sep cs of [] \<Rightarrow> [[c]] | p # ps \<Rightarrow> (c # p) # ps))"

text \<open>
  The kind of digit a character is: the ASCII digits are decimal digits in every
  version of the database, and no other ASCII character is a digit.
\<close>

definition digit_kind :: "runtime \<Rightarrow> nat \<Rightarrow> digit_class" where
  "digit_kind rt cp =
     (if 48 \<le> cp \<and> cp \<le> 57 then Decimal (cp - 48)
      else if cp < 128 then NoDigit
      else unicode_digit rt cp)"

text \<open>\<^verbatim>\<open>size.isdigit()\<close>: a non-empty string all of whose characters are digits.\<close>

definition isdigit :: "runtime \<Rightarrow> string \<Rightarrow> bool" where
  "isdigit rt s = (s \<noteq> [] \<and> list_all (\<lambda>cp. digit_kind rt cp \<noteq> NoDigit) (code_points s))"

text \<open>
  \<open>py_int rt s\<close> is \<^verbatim>\<open>int(s)\<close> for a string \<open>s\<close> that passed \<open>isdigit\<close> (so without
  sign, blank or underscore): the number the decimal digits denote;
  \<^verbatim>\<open>ValueError\<close> at a digit that is not a decimal digit, and for more digits than
  the interpreter converts.
\<close>

fun py_int_from :: "runtime \<Rightarrow> int \<Rightarrow> nat list \<Rightarrow> pyerror + int" where
  "py_int_from rt acc [] = Inr acc"
| "py_int_from rt acc (cp # cps) =
     (case digit_kind rt cp of
        Decimal d \<Rightarrow> py_int_from rt (10 * acc + int d) cps
      | _ \<Rightarrow> Inl ValueError)"

definition py_int :: "runtime \<Rightarrow> string \<Rightarrow> pyerror + int" where
  "py_int rt s =
     (if s = [] then Inl ValueError
      else if int_max_str_digits rt \<noteq> 0 \<and> int_max_str_digits rt < length (code_points s)
        then Inl ValueError
      else py_int_from rt 0 (code_points s))"

text \<open>
  Lines 162--165: \<^verbatim>\<open>int(size) if size.isdigit() else 1\<close>, and \<open>1\<close> when that raises.
\<close>

definition size_n :: "runtime \<Rightarrow> string \<Rightarrow> int" where
  "size_n rt sz =
     (case (if isdigit rt sz then py_int rt sz else Inr 1) of Inl e \<Rightarrow> 1 | Inr v \<Rightarrow> v)"

text \<open>\<^verbatim>\<open>d.get(key, default)\<close>: only a dictionary has the method.\<close>

definition dict_get :: "json \<Rightarrow> string \<Rightarrow> json \<Rightarrow> pyerror + json" where
  "dict_get d k dflt =
     (case d of
        JObj kvs \<Rightarrow> Inr (case map_of kvs k of None \<Rightarrow> dflt | Some v \<Rightarrow> v)
      | _ \<Rightarrow> Inl AttributeError)"

text \<open>\<^verbatim>\<open>data.get(name, {}).get("point_estimate", 0)\<close>\<close>

definition point_estimate :: "json \<Rightarrow> string \<Rightarrow> pyerror + json" where
  "point_estimate data name =
     (case dict_get data name (JObj []) of
        Inl e \<Rightarrow> Inl e
      | Inr m \<Rightarrow> dict_get m ''point_estimate'' (JInt 0))"

text \<open>\<^verbatim>\<open>round(v, 2)\<close>: an int is returned as it is, a float through the library.\<close>

definition py_round2 :: "runtime \<Rightarrow> json \<Rightarrow> pyerror + pynum" where
  "py_round2 rt v =
     (case v of
        JInt i \<Rightarrow> Inr (PyInt i)
      | JBool b \<Rightarrow> Inr (PyInt (if b then 1 else 0))
      | JFloat x \<Rightarrow> Inr (PyFloat (round2 rt x))
      | _ \<Rightarrow> Inl TypeError)"

text \<open>
  A node of the file system: a file with what \<^verbatim>\<open>json.load\<close> makes of it (\<open>None\<close>
  when it raises) and its modification time, or a directory with its entries in the
  order \<^verbatim>\<open>iterdir\<close> yields them.
\<close>

datatype fsnode = File "json option" real | Dir "(string \<times> fsnode) list"

definition operation_of :: "string \<Rightarrow> string" where
  "operation_of tname =
     (case split_on CHR ''/'' tname of [] \<Rightarrow> tname | p # ps \<Rightarrow> p)"

definition size_of :: "string \<Rightarrow> string" where
  "size_of tname =
     (case split_on CHR ''/'' tname of p # q # ps \<Rightarrow> q | _ \<Rightarrow> ''N/A'')"

text \<open>The body of the \<^verbatim>\<open>try\<close> of lines 140--182.\<close>

definition build_record ::
  "runtime \<Rightarrow> json option \<Rightarrow> real \<Rightarrow> string \<Rightarrow> string \<Rightarrow> string \<Rightarrow> pyerror + bench_record" where
  "build_record rt content mtime bench_name tname tg =
     (case content of None \<Rightarrow> Inl JSONDecodeError | Some data \<Rightarrow>
     (case get_run_id_from_file rt mtime of None \<Rightarrow> Inl OverflowError | Some rid \<Rightarrow>
     (case isoformat rt mtime of None \<Rightarrow> Inl OverflowError | Some stamp \<Rightarrow>
     (case point_estimate data ''median'' of Inl e \<Rightarrow> Inl e | Inr median \<Rightarrow>
     (case point_estimate data ''mean'' of Inl e \<Rightarrow> Inl e | Inr mean \<Rightarrow>
     (case format_throughput rt median (size_n rt (size_of tname)) of
        Inl e \<Rightarrow> Inl e | Inr (ops_per_sec, pretty) \<Rightarrow>
     (case py_round2 rt median of Inl e \<Rightarrow> Inl e | Inr median_r \<Rightarrow>
     (case py_round2 rt mean of Inl e \<Rightarrow> Inl e | Inr mean_r \<Rightarrow>
        Inr \<lparr>run_id = rid, benchmark = bench_name, test_name = tname,
             operation = operation_of tname, size_s = size_of tname,
             median_ns = median_r, mean_ns = mean_r,
             throughput_ops_sec = round2 rt ops_per_sec,
             throughput_pretty = pretty, timestamp = stamp, tag = tg\<rparr>))))))))"

text \<open>
  \<open>estimates_file\<close> is what the path names, \<open>None\<close> when nothing exists there. Opening
  a directory raises inside the \<^verbatim>\<open>try\<close>. Every exception is caught and leaves the
  result list empty. (The parameter \<open>source\<close> is not used by the source either.)
\<close>

definition process_estimates_file ::
  "runtime \<Rightarrow> fsnode option \<Rightarrow> string \<Rightarrow> string \<Rightarrow> string \<Rightarrow> string \<Rightarrow> bench_record list" where
  "process_estimates_file rt estimates_file bench_name tname source tg =
     (case estimates_file of
        None \<Rightarrow> []
      | Some (Dir entries) \<Rightarrow> []
      | Some (File content mtime) \<Rightarrow>
          (case build_record rt content mtime bench_name tname tg of
             Inl e \<Rightarrow> []
           | Inr result \<Rightarrow> [result]))"

section \<open>parse\_benchmark\_results\<close>

text \<open>
  \<open>estimates_at entries source\<close> is the node at
  \<^verbatim>\<open>d / source / "estimates.json"\<close> for the directory \<open>d\<close> with these entries, if that
  path exists. \<open>source\<close> is a plain directory name.
\<close>

definition estimates_at :: "(string \<times> fsnode) list \<Rightarrow> string \<Rightarrow> fsnode option" where
  "estimates_at entries source =
     (case map_of entries source of
        Some (Dir sub) \<Rightarrow> map_of sub ''estimates.json''
      | _ \<Rightarrow> None)"

fun starts_with :: "string \<Rightarrow> string \<Rightarrow> bool" where
  "starts_with [] s = True"
| "starts_with (p # ps) [] = False"
| "starts_with (p # ps) (c # cs) = (p = c \<and> starts_with ps cs)"

text \<open>\<^verbatim>\<open>sub in s\<close> on strings.\<close>

fun py_in :: "string \<Rightarrow> string \<Rightarrow> bool" where
  "py_in sub [] = starts_with sub []"
| "py_in sub (c # cs) = (starts_with sub (c # cs) \<or> py_in sub cs)"

text \<open>The body of the loop over \<^verbatim>\<open>param_dir\<close> (lines 112--122).\<close>

definition param_dir_results ::
  "runtime \<Rightarrow> string \<Rightarrow> string \<Rightarrow> string \<Rightarrow> string \<Rightarrow> string \<times> fsnode \<Rightarrow> bench_record list" where
  "param_dir_results rt source tg bench_name test_dir_name param_dir =
     (case param_dir of
        (param_name, File content mtime) \<Rightarrow> []
      | (param_name, Dir entries) \<Rightarrow>
          (case estimates_at entries source of
             None \<Rightarrow> []
           | Some f \<Rightarrow>
               process_estimates_file rt (Some f) bench_name
                 (test_dir_name @ ''/'' @ param_name) source tg))"

text \<open>The body of the loop over \<^verbatim>\<open>test_dir\<close> (lines 98--122).\<close>

definition test_dir_results ::
  "runtime \<Rightarrow> string \<Rightarrow> string \<Rightarrow> string \<Rightarrow> string \<times> fsnode \<Rightarrow> bench_record list" where
  "test_dir_results rt source tg bench_name test_dir =
     (case test_dir of
        (test_dir_name, File content mtime) \<Rightarrow> []
      | (test_dir_name, Dir entries) \<Rightarrow>
          (case estimates_at entries source of
             Some f \<Rightarrow> process_estimates_file rt (Some f) bench_name test_dir_name source tg
           | None \<Rightarrow>
               concat (map (param_dir_results rt source tg bench_name test_dir_name)
                         entries)))"

text \<open>
  The body of the loop over \<^verbatim>\<open>benchmark_dir\<close> (lines 83--122). A filter that is
  \<^verbatim>\<open>None\<close> or the empty string is not applied.
\<close>

definition benchmark_dir_results ::
  "runtime \<Rightarrow> string \<Rightarrow> string option \<Rightarrow> string \<Rightarrow> string \<times> fsnode \<Rightarrow> bench_record list" where
  "benchmark_dir_results rt source bench_filter tg benchmark_dir =
     (case benchmark_dir of
        (bench_name, File content mtime) \<Rightarrow> []
      | (bench_name, Dir entries) \<Rightarrow>
          (case bench_filter of
             None \<Rightarrow> concat (map (test_dir_results rt source tg bench_name) entries)
           | Some flt \<Rightarrow>
               if flt \<noteq> [] \<and> \<not> py_in flt bench_name then []
               else concat (map (test_dir_results rt source tg bench_name) entries)))"

text \<open>
  \<open>criterion_dir\<close> is \<open>None\<close> when the path does not exist; iterating over a path
  that is a file raises, and nothing catches it.
\<close>

definition parse_benchmark_results ::
  "runtime \<Rightarrow> fsnode option \<Rightarrow> string \<Rightarrow> string option \<Rightarrow> string
     \<Rightarrow> pyerror + bench_record list" where
  "parse_benchmark_results rt criterion_dir source bench_filter tg =
     (case criterion_dir of
        None \<Rightarrow> Inr []
      | Some (File content mtime) \<Rightarrow> Inl NotADirectoryError
      | Some (Dir entries) \<Rightarrow>
          Inr (concat (map (benchmark_dir_results rt source bench_filter tg) entries)))"

section \<open>The run\<close>

text \<open>
  Lines 311--340 of \<^verbatim>\<open>main\<close>, after the paths are resolved: the number of records
  written (none when nothing is discovered) and the destination afterwards.
\<close>

definition main ::
  "runtime \<Rightarrow> fsnode option \<Rightarrow> string \<Rightarrow> string option \<Rightarrow> string \<Rightarrow> location
     \<Rightarrow> pyerror + (nat \<times> location)" where
  "main rt criterion_dir source bench tg output_path =
     (case load_existing_run_ids output_path of
        Inl e \<Rightarrow> Inl e
      | Inr existing_ids \<Rightarrow>
          (case parse_benchmark_results rt criterion_dir source bench tg of
             Inl e \<Rightarrow> Inl e
           | Inr results \<Rightarrow>
               if results = [] then Inr (0, output_path)
               else
                 (case output_path of
                    Unreachable \<Rightarrow> Inl OSError
                  | Reachable d \<Rightarrow>
                      (let out = export_to_csv rt results d existing_ids
                       in Inr (returned out, Reachable (dest_after out))))))"

section \<open>Specification-side notions\<close>

text \<open>
  \<open>first_seen E rs\<close> are the positions of \<open>rs\<close>, in increasing order, whose identity key
  is not known when the record is reached: it is neither in \<open>E\<close> nor the key of an
  earlier record of \<open>rs\<close>. \<open>appended E rs\<close> are the records at these positions.
\<close>

definition first_seen :: "string set \<Rightarrow> bench_record list \<Rightarrow> nat list" where
  "first_seen E rs =
     filter (\<lambda>i. key_of (rs ! i) \<notin> E \<union> key_of ` set (take i rs)) [0..<length rs]"

definition appended :: "string set \<Rightarrow> bench_record list \<Rightarrow> bench_record list" where
  "appended E rs = map ((!) rs) (first_seen E rs)"

text \<open>
  The size strings whose value the program takes as the operation count: the non-empty
  strings of decimal digits, of no more digits than the interpreter converts.
  \<open>decimal_value\<close> is the number such a string denotes.
\<close>

definition decimal_text :: "runtime \<Rightarrow> string \<Rightarrow> bool" where
  "decimal_text rt s =
     (s \<noteq> []
      \<and> list_all (\<lambda>cp. case digit_kind rt cp of Decimal d \<Rightarrow> True | _ \<Rightarrow> False)
          (code_points s))"

definition convertible :: "runtime \<Rightarrow> string \<Rightarrow> bool" where
  "convertible rt s =
     (int_max_str_digits rt = 0 \<or> length (code_points s) \<le> int_max_str_digits rt)"

definition decimal_value :: "runtime \<Rightarrow> string \<Rightarrow> int" where
  "decimal_value rt s =
     foldl (\<lambda>a cp. 10 * a + (case digit_kind rt cp of Decimal d \<Rightarrow> int d | _ \<Rightarrow> 0)) 0
       (code_points s)"

definition operation_count :: "runtime \<Rightarrow> string \<Rightarrow> int" where
  "operation_count rt s =
     (if decimal_text rt s \<and> convertible rt s then decimal_value rt s else 1)"

text \<open>The same for the digits \<open>0\<close> to \<open>9\<close> alone, whatever the interpreter.\<close>

definition nonneg_integer_text :: "string \<Rightarrow> bool" where
  "nonneg_integer_text s = (s \<noteq> [] \<and> (\<forall>c\<in>set s. c \<in> set ''0123456789''))"

definition ascii_decimal_value :: "string \<Rightarrow> int" where
  "ascii_decimal_value s = foldl (\<lambda>a c. 10 * a + (int (of_char c) - 48)) 0 s"

text \<open>
  A string that parses as an integer, as the word is commonly understood and as
  \<^verbatim>\<open>int\<close> reads ASCII text: blanks at both ends aside, an optional sign followed by
  decimal digits, which single underscores may separate.
\<close>

definition blank :: "char \<Rightarrow> bool" where
  "blank c = (c \<in> set [CHR '' '', CHR 0x09, CHR 0x0A, CHR 0x0B, CHR 0x0C, CHR 0x0D])"

fun digits_value :: "int \<Rightarrow> string \<Rightarrow> int option" where
  "digits_value acc [] = None"
| "digits_value acc [c] =
     (if c \<in> set ''0123456789'' then Some (10 * acc + (int (of_char c) - 48)) else None)"
| "digits_value acc (c # d # cs) =
     (if c \<in> set ''0123456789'' then
        (if d = CHR ''_'' then digits_value (10 * acc + (int (of_char c) - 48)) cs
         else digits_value (10 * acc + (int (of_char c) - 48)) (d # cs))
      else None)"

definition int_literal_value :: "string \<Rightarrow> int option" where
  "int_literal_value s =
     (case rev (dropWhile blank (rev (dropWhile blank s))) of
        [] \<Rightarrow> None
      | c # cs \<Rightarrow>
          if c = CHR ''+'' then digits_value 0 cs
          else if c = CHR ''-'' then map_option uminus (digits_value 0 cs)
          else digits_value 0 (c # cs))"

text \<open>
  A time value greater than zero. For such a time \<open>ns\<close> and a count \<open>n\<close>, the throughput
  \<^verbatim>\<open>n * 1e9 / ns\<close> as a float: the quotient of the exact product by the time, rounded
  once, the product being rounded to a float first when the time is a float. It is out
  of range (\<open>throughput_overflows\<close>) when what has to be converted from an int to a float
  is: the product for a float time, the quotient for an int time.
\<close>

definition py_gt_zero :: "json \<Rightarrow> bool" where
  "py_gt_zero ns =
     (case ns of
        JInt i \<Rightarrow> 0 < i
      | JFloat x \<Rightarrow> (case x of Fin a \<Rightarrow> 0 < a | PInf \<Rightarrow> True | _ \<Rightarrow> False)
      | JBool b \<Rightarrow> b
      | _ \<Rightarrow> False)"

definition scaled :: "pyfloat \<Rightarrow> real \<Rightarrow> pyfloat" where
  "scaled q d = (case q of Fin a \<Rightarrow> to_float (a / d) | _ \<Rightarrow> q)"

definition throughput_value :: "int \<Rightarrow> json \<Rightarrow> pyfloat" where
  "throughput_value n ns =
     (case ns of
        JInt i \<Rightarrow> to_float (real_of_int (n * 1000000000) / real_of_int i)
      | JBool b \<Rightarrow> to_float (real_of_int (n * 1000000000))
      | JFloat y \<Rightarrow>
          (case y of
             Fin a \<Rightarrow> scaled (to_float (real_of_int (n * 1000000000))) a
           | _ \<Rightarrow> if n < 0 then NegZero else Fin 0)
      | _ \<Rightarrow> NaN)"

definition throughput_overflows :: "int \<Rightarrow> json \<Rightarrow> bool" where
  "throughput_overflows n ns =
     (case ns of
        JInt i \<Rightarrow> float_limit \<le> \<bar>real_of_int (n * 1000000000) / real_of_int i\<bar>
      | _ \<Rightarrow> float_limit \<le> \<bar>real_of_int (n * 1000000000)\<bar>)"

text \<open>
  The display of a throughput: the unit chosen by the thresholds, the value divided
  accordingly, and what it means for a rendering to have exactly two decimal places: an
  optional minus sign, at least one digit, the point and two digits.
\<close>

definition at_least :: "pyfloat \<Rightarrow> real \<Rightarrow> bool" where
  "at_least q t = (case q of Fin a \<Rightarrow> t \<le> a | PInf \<Rightarrow> True | _ \<Rightarrow> False)"

definition throughput_unit :: "pyfloat \<Rightarrow> string" where
  "throughput_unit q =
     (if at_least q 1000000000 then '' Gops/s''
      else if at_least q 1000000 then '' Mops/s''
      else if at_least q 1000 then '' Kops/s''
      else '' ops/s'')"

definition throughput_shown :: "pyfloat \<Rightarrow> pyfloat" where
  "throughput_shown q =
     (if at_least q 1000000000 then scaled q 1000000000
      else if at_least q 1000000 then scaled q 1000000
      else if at_least q 1000 then scaled q 1000
      else q)"

definition two_decimals :: "string \<Rightarrow> bool" where
  "two_decimals s =
     (case rev s of
        d2 # d1 # p # front \<Rightarrow>
          d2 \<in> set ''0123456789'' \<and> d1 \<in> set ''0123456789'' \<and> p = CHR ''.''
          \<and> (case rev front of
                [] \<Rightarrow> False
              | c # cs \<Rightarrow>
                  if c = CHR ''-'' then cs \<noteq> [] \<and> list_all (\<lambda>x. x \<in> set ''0123456789'') cs
                  else list_all (\<lambda>x. x \<in> set ''0123456789'') (c # cs))
      | _ \<Rightarrow> False)"

text \<open>
  A destination the exporter can extend without losing track of its rows: a path that
  does not exist, an empty file, or a table whose first row is the fixed header and
  whose lines can all be read.
\<close>

definition readable :: "line \<Rightarrow> bool" where
  "readable l = (case l of Bad \<Rightarrow> False | Row row \<Rightarrow> \<not> oversize row)"

definition table_ok :: "dest \<Rightarrow> bool" where
  "table_ok d =
     (case d of
        Missing \<Rightarrow> True
      | Present [] \<Rightarrow> True
      | Present (l # rest) \<Rightarrow> l = Row fieldnames \<and> list_all readable rest)"

section \<open>Example data\<close>

text \<open>
  A runtime that agrees with CPython 3.11 (local time UTC) on the values the examples
  below use: it knows two time stamps, the superscript digits and the Arabic-Indic
  decimal digits. Then an estimates file as the benchmark harness writes it, and a
  result tree with the single file \<^verbatim>\<open>compare_get/insert/100/new/estimates.json\<close>.
\<close>

definition example_runtime :: runtime where
  "example_runtime =
     \<lparr>strftime_run_id =
        (\<lambda>m. if m = 1704110400 then Some ''20240101_120000''
              else if m = 1704196800 then Some ''20240102_120000'' else None),
      isoformat =
        (\<lambda>m. if m = 1704110400 then Some ''2024-01-01T12:00:00''
              else if m = 1704196800 then Some ''2024-01-02T12:00:00'' else None),
      fmt_2f = cpython_fmt_2f,
      round2 = (\<lambda>x. x),
      str_num =
        (\<lambda>v. case v of
                PyInt i \<Rightarrow> (if i = 500 then ''500'' else ''520'')
              | PyFloat x \<Rightarrow>
                  (if x = Fin 500 then ''500.0'' else if x = Fin 520 then ''520.0''
                   else if x = Fin 2000000 then ''2000000.0'' else ''200000000.0'')),
      unicode_digit =
        (\<lambda>cp. if cp = 178 \<or> cp = 179 \<or> cp = 185 then OtherDigit
               else if 1632 \<le> cp \<and> cp \<le> 1641 then Decimal (cp - 1632)
               else NoDigit),
      int_max_str_digits = 4300\<rparr>"

definition example_estimates :: json where
  "example_estimates =
     JObj [(''median'', JObj [(''point_estimate'', JFloat (Fin 500))]),
           (''mean'', JObj [(''point_estimate'', JFloat (Fin 520))])]"

definition example_tree :: fsnode where
  "example_tree =
     Dir [(''compare_get'',
           Dir [(''insert'',
                 Dir [(''100'',
                       Dir [(''new'',
                             Dir [(''estimates.json'',
                                   File (Some example_estimates) 1704110400)])])])])]"

definition example_record :: "string \<Rightarrow> string \<Rightarrow> string \<Rightarrow> bench_record" where
  "example_record rid tname tg =
     \<lparr>run_id = rid, benchmark = ''compare_get'', test_name = tname,
      operation = ''insert'', size_s = ''100'', median_ns = PyFloat (Fin 500),
      mean_ns = PyFloat (Fin 520), throughput_ops_sec = Fin 200000000,
      throughput_pretty = ''200.00 Mops/s'', timestamp = ''2024-01-01T12:00:00'',
      tag = tg\<rparr>"

text \<open>
  The row \<open>export_to_csv\<close> writes for the record of \<open>example_tree\<close>; a history file as
  the report script \<^verbatim>\<open>scripts/parse_bench_results.py\<close> appends it, with that script's
  columns; the record of a test directory \<^verbatim>\<open>insert\<close> that holds the estimates file
  directly; a parameter directory; two test directories that hold both layouts, the
  second with a direct file that is not valid JSON; and a row whose last field, a tag,
  is one character longer than the csv reader accepts.
\<close>

definition example_row :: line where
  "example_row =
     Row [''20240101_120000'', ''compare_get'', ''insert/100'', ''insert'', ''100'',
          ''500.0'', ''520.0'', ''200000000.0'', ''200.00 Mops/s'',
          ''2024-01-01T12:00:00'', []]"

definition example_history :: dest where
  "example_history =
     Present [Row [''timestamp'', ''benchmark'', ''test'', ''operation'', ''size'',
                   ''median_ns'', ''mean_ns'', ''median_us'', ''median_ms''],
              Row [''2024-01-01T12:00:00.000001'', ''compare_get'', ''insert'', ''insert'',
                   ''N/A'', ''500.0'', ''520.0'', ''0.5'', ''0.0005'']]"

definition example_direct_record :: bench_record where
  "example_direct_record =
     \<lparr>run_id = ''20240101_120000'', benchmark = ''compare_get'', test_name = ''insert'',
      operation = ''insert'', size_s = ''N/A'', median_ns = PyFloat (Fin 500),
      mean_ns = PyFloat (Fin 520), throughput_ops_sec = Fin 2000000,
      throughput_pretty = ''2.00 Mops/s'', timestamp = ''2024-01-01T12:00:00'',
      tag = []\<rparr>"

definition example_param_dir :: "string \<times> fsnode" where
  "example_param_dir =
     (''100'', Dir [(''new'', Dir [(''estimates.json'',
                                    File (Some example_estimates) 1704110400)])])"

definition example_both_layouts :: "(string \<times> fsnode) list" where
  "example_both_layouts =
     [(''new'', Dir [(''estimates.json'', File (Some example_estimates) 1704110400)]),
      example_param_dir]"

definition example_broken_direct :: "(string \<times> fsnode) list" where
  "example_broken_direct =
     [(''new'', Dir [(''estimates.json'', File None 1704110400)]), example_param_dir]"

definition example_long_tag :: string where
  "example_long_tag = replicate 131073 CHR ''x''"

definition example_long_row :: line where
  "example_long_row =
     Row [''20240102_120000'', ''compare_get'', ''insert/200'', ''insert'', ''200'',
          ''500.0'', ''520.0'', ''400000000.0'', ''400.00 Mops/s'',
          ''2024-01-02T12:00:00'', example_long_tag]"

section \<open>The deduplication loop\<close>

lemma first_seen_Nil: "first_seen E [] = []"
  by (simp add: first_seen_def)

lemma first_seen_Cons:
  "first_seen E (r # rs) =
     (if key_of r \<in> E then [] else [0]) @ map Suc (first_seen (insert (key_of r) E) rs)"
proof -
  have upt: "[0..<length (r # rs)] = 0 # map Suc [0..<length rs]"
    by (simp add: upt_conv_Cons map_Suc_upt del: upt_Suc)
  have "filter (\<lambda>i. key_of ((r # rs) ! i) \<notin> E \<union> key_of ` set (take i (r # rs)))
          (map Suc [0..<length rs])
        = map Suc (filter (\<lambda>i. key_of (rs ! i) \<notin> insert (key_of r) E \<union> key_of ` set (take i rs))
                     [0..<length rs])"
    unfolding filter_map comp_def
    by (rule arg_cong[where f = "map Suc"], rule filter_cong) auto
  then show ?thesis
    unfolding first_seen_def upt by simp
qed

lemma length_first_seen: "length (first_seen E rs) \<le> length rs"
proof -
  have "length (first_seen E rs) \<le> length [0..<length rs]"
    unfolding first_seen_def by (rule length_filter_le)
  then show ?thesis by simp
qed

lemma filter_duplicates_eq:
  "filter_duplicates rs (new, sk, E) =
     (new @ appended E rs, sk + (length rs - length (appended E rs)), E \<union> key_of ` set rs)"
proof (induction rs arbitrary: new sk E)
  case Nil
  then show ?case by (simp add: first_seen_Nil appended_def)
next
  case (Cons r rs)
  show ?case
  proof (cases "key_of r \<in> E")
    case True
    then have "insert (key_of r) E = E" by auto
    with True Cons.IH[of new "sk + 1" E] length_first_seen[of E rs] show ?thesis
      by (auto simp add: appended_def first_seen_Cons comp_def Suc_diff_le)
  next
    case False
    with Cons.IH[of "new @ [r]" sk "insert (key_of r) E"]
      length_first_seen[of "insert (key_of r) E" rs] show ?thesis
      by (auto simp add: appended_def first_seen_Cons comp_def)
  qed
qed

lemma appended_Nil: "appended E [] = []"
  by (simp add: appended_def first_seen_Nil)

lemma appended_Cons:
  "appended E (r # rs) =
     (if key_of r \<in> E then appended E rs else r # appended (insert (key_of r) E) rs)"
  by (auto simp: appended_def first_seen_Cons comp_def insert_absorb)

lemma appended_keys: "key_of ` set (appended E rs) = key_of ` set rs - E"
proof (induction rs arbitrary: E)
  case Nil
  then show ?case by (simp add: appended_Nil)
next
  case (Cons r rs)
  show ?case
    unfolding appended_Cons using Cons.IH[of E] Cons.IH[of "insert (key_of r) E"]
    by (cases "key_of r \<in> E") auto
qed

lemma appended_distinct: "distinct (map key_of (appended E rs))"
proof (induction rs arbitrary: E)
  case Nil
  then show ?case by (simp add: appended_Nil)
next
  case (Cons r rs)
  have "key_of r \<notin> key_of ` set (appended (insert (key_of r) E) rs)"
    unfolding appended_keys by simp
  with Cons.IH[of E] Cons.IH[of "insert (key_of r) E"] show ?case
    unfolding appended_Cons by (cases "key_of r \<in> E") simp_all
qed

lemma appended_first:
  "x \<in> set (appended E rs) \<Longrightarrow> find (\<lambda>y. key_of y = key_of x) rs = Some x"
proof (induction rs arbitrary: E)
  case Nil
  then show ?case by (simp add: appended_Nil)
next
  case (Cons r rs)
  show ?case
  proof (cases "key_of r \<in> E")
    case True
    with Cons.prems have mem: "x \<in> set (appended E rs)"
      unfolding appended_Cons by simp
    then have "key_of x \<in> key_of ` set (appended E rs)"
      by (rule imageI)
    then have "key_of x \<notin> E" unfolding appended_keys by simp
    with True have "key_of r \<noteq> key_of x" by auto
    with Cons.IH[OF mem] show ?thesis by simp
  next
    case False
    with Cons.prems have
      alt: "x = r \<or> x \<in> set (appended (insert (key_of r) E) rs)"
      unfolding appended_Cons by simp
    show ?thesis
    proof (cases "key_of r = key_of x")
      case True
      have "x \<notin> set (appended (insert (key_of r) E) rs)"
      proof
        assume "x \<in> set (appended (insert (key_of r) E) rs)"
        then have "key_of x \<in> key_of ` set (appended (insert (key_of r) E) rs)"
          by (rule imageI)
        then show False unfolding appended_keys using True by simp
      qed
      with alt True show ?thesis by simp
    next
      case False
      with alt have "x \<in> set (appended (insert (key_of r) E) rs)" by auto
      from Cons.IH[OF this] False show ?thesis by simp
    qed
  qed
qed

lemma length_appended: "length (appended E rs) \<le> length rs"
  by (simp add: appended_def length_first_seen)

lemma export_to_csv_eq:
  "export_to_csv rt rs d E =
     \<lparr>returned = length (appended E rs),
      skipped_count = length rs - length (appended E rs),
      dest_after =
        (if appended E rs = [] then d
         else Present (lines_of d
                       @ (if file_exists d then [] else [Row fieldnames])
                       @ map (writerow rt) (appended E rs))),
      ids_after = E \<union> key_of ` set rs\<rparr>"
  by (simp add: export_to_csv_def filter_duplicates_eq appended_Nil)

lemma example_record_key:
  "run_id (example_record rid tname tg) = rid"
  "test_name (example_record rid tname tg) = tname"
  "key_of (example_record rid tname tg) = rid @ '':'' @ tname"
  by (simp_all add: example_record_def key_of_def)

section \<open>Claims about export\_to\_csv\<close>

text \<open>
  C2. A record whose \<open>run_id\<close> and \<open>test_name\<close> form an already known identity key is
  skipped by \<open>export_to_csv\<close>: it is counted as a duplicate and no row is written for
  it, whatever its other fields hold, since only the key is consulted. The records
  whose key is not known when they are reached are the ones appended, in input order:
  the rows written are those of the positions \<open>first_seen E rs\<close>, in increasing order,
  the returned count is their number and every other record is counted as skipped.
\<close>

theorem export_to_csv_skips_known_keys:
  "returned (export_to_csv rt rs d E) = length (first_seen E rs)
   \<and> skipped_count (export_to_csv rt rs d E) = length rs - length (first_seen E rs)
   \<and> lines_of (dest_after (export_to_csv rt rs d E))
       = lines_of d
         @ (if first_seen E rs = [] \<or> file_exists d then [] else [Row fieldnames])
         @ map (\<lambda>i. writerow rt (rs ! i)) (first_seen E rs)
   \<and> sorted_wrt (<) (first_seen E rs)
   \<and> (\<forall>i<length rs. run_id (rs ! i) @ '':'' @ test_name (rs ! i) \<in> E
          \<longrightarrow> i \<notin> set (first_seen E rs))
   \<and> (\<forall>i<length rs. key_of (rs ! i) \<notin> E \<and> (\<forall>j<i. key_of (rs ! j) \<noteq> key_of (rs ! i))
          \<longrightarrow> i \<in> set (first_seen E rs))"
proof -
  have sorted: "sorted_wrt (<) (first_seen E rs)"
    unfolding first_seen_def by (rule sorted_wrt_filter) simp
  have known: "\<forall>i<length rs. run_id (rs ! i) @ '':'' @ test_name (rs ! i) \<in> E
                 \<longrightarrow> i \<notin> set (first_seen E rs)"
    by (simp add: first_seen_def key_of_def)
  have fresh: "\<forall>i<length rs. key_of (rs ! i) \<notin> E \<and> (\<forall>j<i. key_of (rs ! j) \<noteq> key_of (rs ! i))
                 \<longrightarrow> i \<in> set (first_seen E rs)"
  proof (intro allI impI)
    fix i assume i: "i < length rs"
      and h: "key_of (rs ! i) \<notin> E \<and> (\<forall>j<i. key_of (rs ! j) \<noteq> key_of (rs ! i))"
    have "key_of (rs ! i) \<notin> key_of ` set (take i rs)"
    proof
      assume "key_of (rs ! i) \<in> key_of ` set (take i rs)"
      then obtain x where x: "x \<in> set (take i rs)" and k: "key_of (rs ! i) = key_of x"
        by auto
      from x obtain j where "j < length (take i rs)" and "take i rs ! j = x"
        by (auto simp: in_set_conv_nth)
      with i have "j < i" and "rs ! j = x" by auto
      with h k show False by auto
    qed
    with i h show "i \<in> set (first_seen E rs)"
      by (simp add: first_seen_def)
  qed
  have lines: "lines_of (dest_after (export_to_csv rt rs d E))
       = lines_of d
         @ (if first_seen E rs = [] \<or> file_exists d then [] else [Row fieldnames])
         @ map (\<lambda>i. writerow rt (rs ! i)) (first_seen E rs)"
    by (simp add: export_to_csv_eq appended_def lines_of_def comp_def)
  have counts: "returned (export_to_csv rt rs d E) = length (first_seen E rs)"
    "skipped_count (export_to_csv rt rs d E) = length rs - length (first_seen E rs)"
    by (simp_all add: export_to_csv_eq appended_def)
  from counts lines sorted known fresh show ?thesis by blast
qed

theorem export_to_csv_skips_known_keys_witness:
  "(0::nat) < length [example_record ''20240101_120000'' ''insert/100'' ''first'',
                      example_record ''20240102_120000'' ''insert/100'' ''second'',
                      example_record ''20240101_120000'' ''insert/100'' ''third'']
   \<and> run_id (example_record ''20240101_120000'' ''insert/100'' ''first'') @ '':''
       @ test_name (example_record ''20240101_120000'' ''insert/100'' ''first'')
      \<in> {''20240101_120000:insert/100''}
   \<and> first_seen {''20240101_120000:insert/100''}
        [example_record ''20240101_120000'' ''insert/100'' ''first'',
         example_record ''20240102_120000'' ''insert/100'' ''second'',
         example_record ''20240101_120000'' ''insert/100'' ''third''] = [1]
   \<and> returned (export_to_csv example_runtime
        [example_record ''20240101_120000'' ''insert/100'' ''first'',
         example_record ''20240102_120000'' ''insert/100'' ''second'',
         example_record ''20240101_120000'' ''insert/100'' ''third'']
        Missing {''20240101_120000:insert/100''}) = 1
   \<and> skipped_count (export_to_csv example_runtime
        [example_record ''20240101_120000'' ''insert/100'' ''first'',
         example_record ''20240102_120000'' ''insert/100'' ''second'',
         example_record ''20240101_120000'' ''insert/100'' ''third'']
        Missing {''20240101_120000:insert/100''}) = 2"
proof -
  have fs: "first_seen {''20240101_120000:insert/100''}
        [example_record ''20240101_120000'' ''insert/100'' ''first'',
         example_record ''20240102_120000'' ''insert/100'' ''second'',
         example_record ''20240101_120000'' ''insert/100'' ''third''] = [1]"
    by (simp add: first_seen_Cons first_seen_Nil example_record_key)
  show ?thesis
    using export_to_csv_skips_known_keys
      [of example_runtime
          "[example_record ''20240101_120000'' ''insert/100'' ''first'',
            example_record ''20240102_120000'' ''insert/100'' ''second'',
            example_record ''20240101_120000'' ''insert/100'' ''third'']"
          Missing "{''20240101_120000:insert/100''}"]
    by (simp add: fs example_record_key)
qed

lemma row_key_writerow:
  "row_key fieldnames (map (field_text rt r) fieldnames) = key_of r"
  by (simp add: row_key_def dict_row_def row_get_def fieldnames_def field_text_def key_of_def)

text \<open>
  C10. Within one call of \<open>export_to_csv\<close>, of several incoming records with the same
  identity key only the first is appended, and every later one is counted as a skipped
  duplicate, because each appended key joins the known keys as the list is processed.
  So the appended records have pairwise different keys, each is the first record of
  the input with its key, and the rows written in one call never repeat a key.
\<close>

theorem export_to_csv_one_row_per_key:
  "distinct (map key_of (appended E rs))
   \<and> distinct (map (\<lambda>r. row_key fieldnames (map (field_text rt r) fieldnames)) (appended E rs))
   \<and> (\<forall>x\<in>set (appended E rs).
         key_of x \<notin> E \<and> find (\<lambda>y. key_of y = key_of x) rs = Some x)
   \<and> (\<forall>i j. i < j \<and> j < length rs \<and> key_of (rs ! i) = key_of (rs ! j)
         \<longrightarrow> j \<notin> set (first_seen E rs))
   \<and> returned (export_to_csv rt rs d E) = length (appended E rs)
   \<and> skipped_count (export_to_csv rt rs d E) = length rs - length (appended E rs)
   \<and> dest_after (export_to_csv rt rs d E)
       = (if appended E rs = [] then d
          else Present (lines_of d
                        @ (if file_exists d then [] else [Row fieldnames])
                        @ map (writerow rt) (appended E rs)))
   \<and> ids_after (export_to_csv rt rs d E) = E \<union> key_of ` set rs"
proof -
  have d1: "distinct (map key_of (appended E rs))"
    by (rule appended_distinct)
  have d2: "distinct (map (\<lambda>r. row_key fieldnames (map (field_text rt r) fieldnames))
                       (appended E rs))"
    using d1 by (simp add: row_key_writerow)
  have firsts: "\<forall>x\<in>set (appended E rs).
         key_of x \<notin> E \<and> find (\<lambda>y. key_of y = key_of x) rs = Some x"
  proof
    fix x assume x: "x \<in> set (appended E rs)"
    then have "key_of x \<in> key_of ` set (appended E rs)" by (rule imageI)
    then have "key_of x \<notin> E" unfolding appended_keys by simp
    with appended_first[OF x] show "key_of x \<notin> E \<and> find (\<lambda>y. key_of y = key_of x) rs = Some x"
      by simp
  qed
  have later: "\<forall>i j. i < j \<and> j < length rs \<and> key_of (rs ! i) = key_of (rs ! j)
         \<longrightarrow> j \<notin> set (first_seen E rs)"
  proof (intro allI impI)
    fix i j assume h: "i < j \<and> j < length rs \<and> key_of (rs ! i) = key_of (rs ! j)"
    then have "rs ! i \<in> set (take j rs)"
      by (auto simp: in_set_conv_nth intro!: exI[of _ i])
    then have "key_of (rs ! i) \<in> key_of ` set (take j rs)" by (rule imageI)
    with h show "j \<notin> set (first_seen E rs)"
      by (simp add: first_seen_def)
  qed
  show ?thesis
    using d1 d2 firsts later by (simp add: export_to_csv_eq)
qed

theorem export_to_csv_one_row_per_key_witness:
  "example_record ''20240101_120000'' ''insert/100'' ''first''
     \<in> set (appended {} [example_record ''20240101_120000'' ''insert/100'' ''first'',
                         example_record ''20240101_120000'' ''insert/100'' ''second''])
   \<and> (0::nat) < 1 \<and> (1::nat) < length [example_record ''20240101_120000'' ''insert/100'' ''first'',
                         example_record ''20240101_120000'' ''insert/100'' ''second'']
   \<and> key_of ([example_record ''20240101_120000'' ''insert/100'' ''first'',
               example_record ''20240101_120000'' ''insert/100'' ''second''] ! 0)
      = key_of ([example_record ''20240101_120000'' ''insert/100'' ''first'',
               example_record ''20240101_120000'' ''insert/100'' ''second''] ! 1)
   \<and> 1 \<notin> set (first_seen {} [example_record ''20240101_120000'' ''insert/100'' ''first'',
                         example_record ''20240101_120000'' ''insert/100'' ''second''])
   \<and> returned (export_to_csv example_runtime
         [example_record ''20240101_120000'' ''insert/100'' ''first'',
          example_record ''20240101_120000'' ''insert/100'' ''second''] Missing {}) = 1
   \<and> skipped_count (export_to_csv example_runtime
         [example_record ''20240101_120000'' ''insert/100'' ''first'',
          example_record ''20240101_120000'' ''insert/100'' ''second''] Missing {}) = 1"
proof -
  have ap: "appended {} [example_record ''20240101_120000'' ''insert/100'' ''first'',
                         example_record ''20240101_120000'' ''insert/100'' ''second'']
            = [example_record ''20240101_120000'' ''insert/100'' ''first'']"
    by (simp add: appended_Cons appended_Nil example_record_key)
  have fs: "first_seen {} [example_record ''20240101_120000'' ''insert/100'' ''first'',
                         example_record ''20240101_120000'' ''insert/100'' ''second''] = [0]"
    by (simp add: first_seen_Cons first_seen_Nil example_record_key)
  show ?thesis
    using export_to_csv_one_row_per_key
      [of "{}" "[example_record ''20240101_120000'' ''insert/100'' ''first'',
                 example_record ''20240101_120000'' ''insert/100'' ''second'']"
          example_runtime Missing]
    by (simp add: ap fs example_record_key)
qed

text \<open>
  C6. \<open>export_to_csv\<close> writes the fixed header exactly when at least one new record is
  appended and the destination does not exist or has size zero; appending to a populated
  destination adds the rows only, and nothing is written when no record is new. Every
  row lists the fields in the fixed column order run\_id, benchmark, test\_name,
  operation, size, median\_ns, mean\_ns, throughput\_ops\_sec, throughput\_pretty,
  timestamp, tag.
\<close>

theorem export_to_csv_header_once:
  "dest_after (export_to_csv rt rs d E)
     = (if appended E rs = [] then d
        else if d = Missing \<or> d = Present [] then
          Present (Row [''run_id'', ''benchmark'', ''test_name'', ''operation'', ''size'',
                        ''median_ns'', ''mean_ns'', ''throughput_ops_sec'',
                        ''throughput_pretty'', ''timestamp'', ''tag'']
                   # map (writerow rt) (appended E rs))
        else Present (lines_of d @ map (writerow rt) (appended E rs)))
   \<and> returned (export_to_csv rt rs d E) = length (appended E rs)
   \<and> writerow rt r
       = Row [run_id r, benchmark r, test_name r, operation r, size_s r,
              str_num rt (median_ns r), str_num rt (mean_ns r),
              str_num rt (PyFloat (throughput_ops_sec r)), throughput_pretty r,
              timestamp r, tag r]"
proof -
  have ex: "file_exists d \<longleftrightarrow> \<not> (d = Missing \<or> d = Present [])"
    by (cases d) (simp_all add: file_exists_def)
  have ln: "\<not> file_exists d \<Longrightarrow> lines_of d = []"
    by (cases d) (simp_all add: file_exists_def lines_of_def)
  have row: "writerow rt r
       = Row [run_id r, benchmark r, test_name r, operation r, size_s r,
              str_num rt (median_ns r), str_num rt (mean_ns r),
              str_num rt (PyFloat (throughput_ops_sec r)), throughput_pretty r,
              timestamp r, tag r]"
    by (simp add: writerow_def fieldnames_def field_text_def)
  have dst: "dest_after (export_to_csv rt rs d E)
     = (if appended E rs = [] then d
        else if d = Missing \<or> d = Present [] then
          Present (Row fieldnames # map (writerow rt) (appended E rs))
        else Present (lines_of d @ map (writerow rt) (appended E rs)))"
    using ex ln by (auto simp add: export_to_csv_eq)
  show ?thesis
    using dst row by (simp add: export_to_csv_eq fieldnames_def)
qed

theorem export_to_csv_header_once_witness:
  "dest_after (export_to_csv example_runtime
       [example_record ''20240101_120000'' ''insert/100'' ''first''] Missing {})
     = Present [Row fieldnames,
                writerow example_runtime
                  (example_record ''20240101_120000'' ''insert/100'' ''first'')]
   \<and> dest_after (export_to_csv example_runtime
       [example_record ''20240102_120000'' ''insert/100'' ''second'']
       (Present [Row fieldnames,
                 writerow example_runtime
                   (example_record ''20240101_120000'' ''insert/100'' ''first'')])
       {''20240101_120000:insert/100''})
     = Present [Row fieldnames,
                writerow example_runtime
                  (example_record ''20240101_120000'' ''insert/100'' ''first''),
                writerow example_runtime
                  (example_record ''20240102_120000'' ''insert/100'' ''second'')]"
  using export_to_csv_header_once
      [of example_runtime "[example_record ''20240101_120000'' ''insert/100'' ''first'']"
          Missing "{}" "example_record ''20240101_120000'' ''insert/100'' ''first''"]
    export_to_csv_header_once
      [of example_runtime "[example_record ''20240102_120000'' ''insert/100'' ''second'']"
          "Present [Row fieldnames,
                    writerow example_runtime
                      (example_record ''20240101_120000'' ''insert/100'' ''first'')]"
          "{''20240101_120000:insert/100''}"
          "example_record ''20240102_120000'' ''insert/100'' ''second''"]
  by (simp add: appended_Cons appended_Nil key_of_def example_record_def lines_of_def
        fieldnames_def)

section \<open>Floats\<close>

lemma round_half_even_of_int: "round_half_even (of_int m) = m"
  by (simp add: round_half_even_def)

lemma round_half_even_sign:
  "y < 0 \<Longrightarrow> round_half_even y \<le> 0" "0 \<le> y \<Longrightarrow> 0 \<le> round_half_even y"
proof -
  assume "y < 0"
  then have "\<lfloor>y\<rfloor> \<le> - 1" by linarith
  then show "round_half_even y \<le> 0" by (simp add: round_half_even_def)
next
  assume "0 \<le> y"
  then have "0 \<le> \<lfloor>y\<rfloor>" by simp
  then show "0 \<le> round_half_even y" by (simp add: round_half_even_def)
qed

lemma ulp_pos: "0 < ulp x"
  by (simp add: ulp_def)

lemma float_limit_big: "2 ^ 53 < float_limit"
proof -
  have "(2::real) ^ 1024 = 2 ^ 970 * 2 ^ 54" by (simp add: power_add[symmetric])
  then have "float_limit = 2 ^ 970 * (2 ^ 54 - 1)"
    by (simp add: float_limit_def algebra_simps)
  moreover have "(2::real) ^ 53 * 1 < 2 ^ 970 * (2 ^ 54 - 1)"
    by (rule mult_strict_mono) simp_all
  ultimately show ?thesis by simp
qed

lemma float_limit_pos: "0 < float_limit"
  using float_limit_big by (rule less_trans[rotated]) simp

lemma is_neg_to_float: "is_neg (to_float x) = (x < 0)"
proof (cases "x < 0")
  case True
  then have "x / ulp x < 0" using ulp_pos[of x] by (simp add: field_simps)
  then have "round_half_even (x / ulp x) \<le> 0" by (rule round_half_even_sign)
  then have "nearest_double x \<le> 0"
    using ulp_pos[of x] True by (simp add: nearest_double_def mult_le_0_iff)
  with True float_limit_pos show ?thesis
    by (simp add: to_float_def is_neg_def)
next
  case False
  then have "0 \<le> x / ulp x" using ulp_pos[of x] by simp
  then have "0 \<le> round_half_even (x / ulp x)" by (rule round_half_even_sign)
  then have "0 \<le> nearest_double x"
    using ulp_pos[of x] by (simp add: nearest_double_def)
  with False float_limit_pos show ?thesis
    by (simp add: to_float_def is_neg_def)
qed

lemma binade_small_int:
  assumes "k \<noteq> 0" and "\<bar>k\<bar> < 2 ^ 53"
  shows "0 \<le> binade (real_of_int k)" and "binade (real_of_int k) \<le> 52"
proof -
  let ?x = "\<bar>real_of_int k\<bar>"
  from assms have one: "1 \<le> ?x" by linarith
  from assms have "real_of_int \<bar>k\<bar> < real_of_int (2 ^ 53)"
    by (simp only: of_int_less_iff)
  then have lt: "?x < 2 ^ 53" by simp
  from one have "0 \<le> log 2 ?x" by simp
  then have lo: "0 \<le> \<lfloor>log 2 ?x\<rfloor>" by simp
  from one lt have "log 2 ?x < log 2 (2 ^ 53)"
    by (subst log_less_cancel_iff) simp_all
  also have "log 2 ((2::real) ^ 53) = 53"
    by (subst log_nat_power) simp_all
  finally have hi: "\<lfloor>log 2 ?x\<rfloor> \<le> 52" by (simp add: floor_less_iff)
  from lo show "0 \<le> binade (real_of_int k)" by (simp add: binade_def)
  from hi show "binade (real_of_int k) \<le> 52" by (simp add: binade_def)
qed

lemma nearest_double_small_int:
  assumes "\<bar>k\<bar> < 2 ^ 53"
  shows "nearest_double (real_of_int k) = real_of_int k"
proof (cases "k = 0")
  case True
  then show ?thesis by (simp add: nearest_double_def)
next
  case False
  define e where "e = binade (real_of_int k)"
  from binade_small_int[OF False assms] have e: "0 \<le> e" "e \<le> 52"
    by (simp_all add: e_def)
  define j where "j = nat (52 - e)"
  have u: "ulp (real_of_int k) = 1 / 2 ^ j"
    using e by (simp add: ulp_def e_def[symmetric] j_def power_int_def field_simps)
  have "real_of_int k / ulp (real_of_int k) = of_int (k * 2 ^ j)"
    by (simp add: u)
  then have "round_half_even (real_of_int k / ulp (real_of_int k)) = k * 2 ^ j"
    by (simp only: round_half_even_of_int)
  with False show ?thesis
    by (simp add: nearest_double_def u)
qed

lemma to_float_small_int:
  assumes "\<bar>k\<bar> < 2 ^ 53"
  shows "to_float (real_of_int k) = Fin (real_of_int k)"
proof -
  from assms have "real_of_int \<bar>k\<bar> < real_of_int (2 ^ 53)"
    by (simp only: of_int_less_iff)
  then have "\<bar>real_of_int k\<bar> < 2 ^ 53" by simp
  with float_limit_big have "\<bar>real_of_int k\<bar> < float_limit" by linarith
  then have "\<not> float_limit \<le> real_of_int k" "\<not> real_of_int k \<le> - float_limit"
    by linarith+
  then show ?thesis
    by (simp add: to_float_def nearest_double_small_int[OF assms])
qed

lemma to_float_numeral:
  "(numeral w :: int) < 2 ^ 53 \<Longrightarrow> to_float (numeral w) = Fin (numeral w)"
  using to_float_small_int[of "numeral w"] by simp

lemma to_float_0: "to_float 0 = Fin 0"
  using to_float_small_int[of 0] by simp

lemma to_float_1: "to_float 1 = Fin 1"
  using to_float_small_int[of 1] by simp

lemma int_to_float_small:
  assumes "\<bar>k\<bar> < 2 ^ 53"
  shows "int_to_float k = Inr (Fin (real_of_int k))"
proof -
  from assms have "real_of_int \<bar>k\<bar> < real_of_int (2 ^ 53)"
    by (simp only: of_int_less_iff)
  then have "\<bar>real_of_int k\<bar> < 2 ^ 53" by simp
  with float_limit_big have "\<not> float_limit \<le> \<bar>real_of_int k\<bar>" by linarith
  then show ?thesis
    by (simp add: int_to_float_def to_float_small_int[OF assms])
qed

lemma float_div_pos: "0 < d \<Longrightarrow> float_div x (Fin d) = Inr (scaled x d)"
  by (cases x) (simp_all add: float_div_def scaled_def to_float_0)

lemma float_truediv_int_pos:
  assumes "0 < k" and "k < 2 ^ 53"
  shows "float_truediv_int x k = Inr (scaled x (real_of_int k))"
proof -
  from assms have "\<bar>k\<bar> < 2 ^ 53" by simp
  from int_to_float_small[OF this] assms(1) show ?thesis
    by (simp add: float_truediv_int_def float_div_pos)
qed

lemma float_ge_int_at_least: "0 < k \<Longrightarrow> float_ge_int q k = at_least q (real_of_int k)"
  by (cases q) (simp_all add: float_ge_int_def at_least_def)

section \<open>Claims about format\_throughput\<close>

lemma pretty_of_eq:
  "pretty_of rt q = Inr (fmt_2f rt (throughput_shown q) @ throughput_unit q)"
proof -
  have a: "float_ge_int q 1000000000 = at_least q 1000000000"
    "float_ge_int q 1000000 = at_least q 1000000"
    "float_ge_int q 1000 = at_least q 1000"
    using float_ge_int_at_least[of 1000000000 q] float_ge_int_at_least[of 1000000 q]
      float_ge_int_at_least[of 1000 q] by simp_all
  have d: "float_truediv_int q 1000000000 = Inr (scaled q 1000000000)"
    "float_truediv_int q 1000000 = Inr (scaled q 1000000)"
    "float_truediv_int q 1000 = Inr (scaled q 1000)"
    using float_truediv_int_pos[of 1000000000 q] float_truediv_int_pos[of 1000000 q]
      float_truediv_int_pos[of 1000 q] by simp_all
  show ?thesis
    by (simp add: pretty_of_def a d throughput_shown_def throughput_unit_def)
qed

lemma py_truediv_nonzero: "\<not> py_eq_zero ns \<Longrightarrow> py_truediv k ns \<noteq> Inl ZeroDivisionError"
proof (cases ns)
  case (JFloat y)
  assume "\<not> py_eq_zero ns"
  with JFloat have y: "y \<noteq> Fin 0" "y \<noteq> NegZero"
    by (simp_all add: py_eq_zero_def zero_pyfloat_def)
  show ?thesis
  proof (cases "int_to_float k")
    case (Inl e)
    then have "e = OverflowError"
      by (simp add: int_to_float_def split: if_splits)
    with Inl JFloat show ?thesis by (simp add: py_truediv_def)
  next
    case (Inr x)
    with JFloat y show ?thesis
      by (cases y; cases x) (simp_all add: py_truediv_def float_div_def)
  qed
qed (simp_all add: py_eq_zero_def py_truediv_def int_truediv_def)

text \<open>
  C3. For every operation count \<open>n\<close>, the throughput calculator called with a time
  that equals zero returns the throughput \<open>0.0\<close> together with the display string
  \<^verbatim>\<open>N/A\<close>; it returns normally, and for no time at all does it divide by zero. (The
  function of the same name in the report script returns the display string alone.)
\<close>

theorem format_throughput_zero_guard:
  "(py_eq_zero ns \<longrightarrow>
      format_throughput rt ns n = Inr (0, ''N/A'')
      \<and> report_format_throughput rt ns n = Inr ''N/A'')
   \<and> format_throughput rt ns n \<noteq> Inl ZeroDivisionError
   \<and> report_format_throughput rt ns n \<noteq> Inl ZeroDivisionError"
proof (cases "py_eq_zero ns")
  case True
  then show ?thesis
    by (simp add: format_throughput_def report_format_throughput_def)
next
  case False
  from py_truediv_nonzero[OF False, of "n * 1000000000"] False show ?thesis
    by (auto simp add: format_throughput_def report_format_throughput_def pretty_of_eq
          split: sum.splits)
qed

theorem format_throughput_zero_guard_witness:
  "py_eq_zero (JFloat 0)
   \<and> format_throughput example_runtime (JFloat 0) 100 = Inr (0, ''N/A'')
   \<and> report_format_throughput example_runtime (JFloat 0) 100 = Inr ''N/A''"
proof -
  have z: "py_eq_zero (JFloat 0)" by (simp add: py_eq_zero_def)
  from format_throughput_zero_guard[of "JFloat 0" example_runtime 100] z show ?thesis by simp
qed

lemma int_truediv_pos:
  "0 < i \<Longrightarrow>
     int_truediv k i =
       (if float_limit \<le> \<bar>real_of_int k / real_of_int i\<bar> then Inl OverflowError
        else Inr (to_float (real_of_int k / real_of_int i)))"
  using float_limit_pos by (simp add: int_truediv_def to_float_0)

lemma to_float_in_range:
  assumes "\<not> float_limit \<le> \<bar>x\<bar>"
  shows "to_float x = NegZero \<or> (\<exists>a. to_float x = Fin a)"
proof -
  from assms have "\<not> float_limit \<le> x" "\<not> x \<le> - float_limit" by linarith+
  then show ?thesis by (simp add: to_float_def)
qed

lemma float_div_inf:
  assumes "\<not> float_limit \<le> \<bar>x\<bar>"
  shows "float_div (to_float x) PInf = Inr (if x < 0 then NegZero else Fin 0)"
proof -
  from to_float_in_range[OF assms] is_neg_to_float[of x] show ?thesis
    by (auto simp: float_div_def is_neg_def)
qed

lemma py_gt_zero_not_zero: "py_gt_zero ns \<Longrightarrow> \<not> py_eq_zero ns"
  by (auto simp: py_gt_zero_def py_eq_zero_def zero_pyfloat_def
        split: json.splits pyfloat.splits)

lemma py_truediv_pos:
  assumes "py_gt_zero ns"
  shows "py_truediv (n * 1000000000) ns =
           (if throughput_overflows n ns then Inl OverflowError
            else Inr (throughput_value n ns))"
proof (cases ns)
  case (JInt i)
  with assms have "0 < i" by (simp add: py_gt_zero_def)
  from int_truediv_pos[OF this, of "n * 1000000000"] JInt show ?thesis
    by (simp add: py_truediv_def throughput_overflows_def throughput_value_def)
next
  case (JBool b)
  with assms have b by (simp add: py_gt_zero_def)
  with int_truediv_pos[of 1 "n * 1000000000"] JBool show ?thesis
    by (simp add: py_truediv_def throughput_overflows_def throughput_value_def)
next
  case (JFloat y)
  show ?thesis
  proof (cases "float_limit \<le> \<bar>real_of_int (n * 1000000000)\<bar>")
    case True
    with JFloat show ?thesis
      by (simp add: py_truediv_def throughput_overflows_def int_to_float_def)
  next
    case False
    then have c: "int_to_float (n * 1000000000) = Inr (to_float (real_of_int (n * 1000000000)))"
      by (simp add: int_to_float_def)
    from assms JFloat consider a where "y = Fin a" "0 < a" | "y = PInf"
      by (cases y) (simp_all add: py_gt_zero_def)
    then show ?thesis
    proof cases
      case 1
      with JFloat False c show ?thesis
        by (simp add: py_truediv_def throughput_overflows_def throughput_value_def
              float_div_pos del: of_int_mult)
    next
      case 2
      have "(real_of_int (n * 1000000000) < 0) = (n < 0)" by simp
      with 2 JFloat False c float_div_inf[OF False] show ?thesis
        by (simp add: py_truediv_def throughput_overflows_def throughput_value_def
              del: of_int_mult)
    qed
  qed
qed (use assms in \<open>simp_all add: py_gt_zero_def\<close>)

lemma format_throughput_eq:
  assumes "py_gt_zero ns"
  shows "format_throughput rt ns n =
           (if throughput_overflows n ns then Inl OverflowError
            else Inr (throughput_value n ns,
                      fmt_2f rt (throughput_shown (throughput_value n ns))
                      @ throughput_unit (throughput_value n ns)))"
  using py_gt_zero_not_zero[OF assms] py_truediv_pos[OF assms, of n]
  by (simp add: format_throughput_def pretty_of_eq)

lemma report_format_throughput_eq:
  assumes "py_gt_zero ns"
  shows "report_format_throughput rt ns n =
           (if throughput_overflows n ns then Inl OverflowError
            else Inr (fmt_2f rt (throughput_shown (throughput_value n ns))
                      @ throughput_unit (throughput_value n ns)))"
  using py_gt_zero_not_zero[OF assms] py_truediv_pos[OF assms, of n]
  by (simp add: report_format_throughput_def pretty_of_eq)

lemma digit_char_digit: "digit_char d \<in> set ''0123456789''"
proof -
  have "d mod 10 < length ''0123456789''" by simp
  then have "''0123456789'' ! (d mod 10) \<in> set ''0123456789''" by (rule nth_mem)
  then show ?thesis by (simp only: digit_char_def)
qed

lemma decimal_digits_digits:
  "decimal_digits n \<noteq> [] \<and> list_all (\<lambda>x. x \<in> set ''0123456789'') (decimal_digits n)"
proof (induction n rule: decimal_digits.induct)
  case (1 n)
  show ?case
  proof (cases "n < 10")
    case True
    with digit_char_digit[of n] show ?thesis
      by (subst (1 2) decimal_digits.simps) simp
  next
    case False
    with 1 digit_char_digit[of "n mod 10"] show ?thesis
      by (subst (1 2) decimal_digits.simps) simp
  qed
qed

lemma two_decimals_digits:
  assumes "ds \<noteq> []" and "list_all (\<lambda>x. x \<in> set ''0123456789'') ds"
    and "a \<in> set ''0123456789''" and "b \<in> set ''0123456789''"
  shows "two_decimals (ds @ ''.'' @ [a, b])" and "two_decimals (''-'' @ ds @ ''.'' @ [a, b])"
proof -
  from assms(1) obtain c cs where ds: "ds = c # cs" by (cases ds) auto
  with assms(2) have "c \<in> set ''0123456789''" by simp
  then have c: "c \<noteq> CHR ''-''" by auto
  from assms ds c show "two_decimals (ds @ ''.'' @ [a, b])"
    by (simp add: two_decimals_def)
  from assms ds show "two_decimals (''-'' @ ds @ ''.'' @ [a, b])"
    by (simp add: two_decimals_def)
qed

lemma two_decimals_fmt:
  "two_decimals (cpython_fmt_2f v) = (v \<noteq> PInf \<and> v \<noteq> NInf \<and> v \<noteq> NaN)"
proof (cases v)
  case (Fin x)
  let ?h = "hundredths \<bar>x\<bar>"
  from two_decimals_digits[of "decimal_digits (?h div 100)" "digit_char (?h mod 100 div 10)"
      "digit_char (?h mod 10)"] decimal_digits_digits[of "?h div 100"]
    digit_char_digit[of "?h mod 100 div 10"] digit_char_digit[of "?h mod 10"]
  have "two_decimals (decimal_digits (?h div 100) @ ''.''
          @ [digit_char (?h mod 100 div 10), digit_char (?h mod 10)])"
    "two_decimals (''-'' @ decimal_digits (?h div 100) @ ''.''
          @ [digit_char (?h mod 100 div 10), digit_char (?h mod 10)])"
    by blast+
  with Fin show ?thesis by (cases "x < 0") (simp_all add: cpython_fmt_2f_def)
qed (simp_all add: cpython_fmt_2f_def two_decimals_def)

text \<open>
  C4 (amended). For a time greater than zero and any count the throughput calculator
  either raises \<^verbatim>\<open>OverflowError\<close>, exactly when the value is out of the range of a
  float where an int is converted, or returns the float \<open>throughput_value n ns\<close> with a
  display string that is a function of that float: the value, divided by \<open>1e9\<close>, \<open>1e6\<close>
  or \<open>1e3\<close> from the respective threshold on, rendered by \<^verbatim>\<open>.2f\<close> and followed by
  the unit. In CPython the rendering has exactly two decimal places when the rendered
  float is finite, and only then. (The function of the same name in the report script
  returns the display string alone.)
\<close>

theorem format_throughput_positive:
  assumes "py_gt_zero ns"
  shows "format_throughput rt ns n =
           (if throughput_overflows n ns then Inl OverflowError
            else Inr (throughput_value n ns,
                      fmt_2f rt (throughput_shown (throughput_value n ns))
                      @ throughput_unit (throughput_value n ns)))
         \<and> report_format_throughput rt ns n =
           (if throughput_overflows n ns then Inl OverflowError
            else Inr (fmt_2f rt (throughput_shown (throughput_value n ns))
                      @ throughput_unit (throughput_value n ns)))
         \<and> (fmt_2f rt = cpython_fmt_2f \<longrightarrow>
              two_decimals (fmt_2f rt (throughput_shown (throughput_value n ns)))
              = (throughput_shown (throughput_value n ns) \<noteq> PInf
                 \<and> throughput_shown (throughput_value n ns) \<noteq> NInf
                 \<and> throughput_shown (throughput_value n ns) \<noteq> NaN))"
  using format_throughput_eq[OF assms] report_format_throughput_eq[OF assms]
  by (simp add: two_decimals_fmt)

lemmas float_eval =
  to_float_numeral to_float_0 to_float_1 scaled_def at_least_def throughput_shown_def
  throughput_unit_def cpython_fmt_2f_def hundredths_def round_half_even_def digit_char_def
  decimal_digits.simps

lemma example_throughput:
  "throughput_value 100 (JFloat (Fin 500)) = Fin 200000000"
  "throughput_value 1 (JFloat (Fin 500)) = Fin 2000000"
  "\<not> throughput_overflows 100 (JFloat (Fin 500))"
  "\<not> throughput_overflows 1 (JFloat (Fin 500))"
  using float_limit_big
  by (simp_all add: throughput_value_def throughput_overflows_def float_eval)

lemma example_display:
  "cpython_fmt_2f (throughput_shown (Fin 200000000)) @ throughput_unit (Fin 200000000)
     = ''200.00 Mops/s''"
  "cpython_fmt_2f (throughput_shown (Fin 2000000)) @ throughput_unit (Fin 2000000)
     = ''2.00 Mops/s''"
  by (simp_all add: float_eval)

theorem format_throughput_positive_witness:
  "py_gt_zero (JFloat (Fin 500))
   \<and> format_throughput example_runtime (JFloat (Fin 500)) 100
       = Inr (Fin 200000000, ''200.00 Mops/s'')
   \<and> report_format_throughput example_runtime (JFloat (Fin 500)) 100 = Inr ''200.00 Mops/s''
   \<and> two_decimals ''200.00''"
proof -
  have p: "py_gt_zero (JFloat (Fin 500))" by (simp add: py_gt_zero_def)
  have f: "fmt_2f example_runtime = cpython_fmt_2f" by (simp add: example_runtime_def)
  have s: "throughput_shown (Fin 200000000) = Fin 200" "cpython_fmt_2f (Fin 200) = ''200.00''"
    by (simp_all add: float_eval)
  from format_throughput_positive[OF p, of example_runtime 100] p f s example_throughput
    example_display
  show ?thesis by simp
qed

text \<open>
  C4 as stated fails. A count of \<open>10 ^ 300\<close> (a size of 301 digits) makes the division
  raise \<^verbatim>\<open>OverflowError\<close>, so that no value is returned; and for the smallest
  positive float, \<^verbatim>\<open>5e-324\<close>, as the time the quotient is infinite and the display
  string is \<^verbatim>\<open>inf Gops/s\<close>, which has no decimal places.
\<close>

theorem format_throughput_range_counterexample:
  "py_gt_zero (JInt 1)
   \<and> format_throughput example_runtime (JInt 1) (10 ^ 300) = Inl OverflowError
   \<and> py_gt_zero (JFloat (Fin (1 / 2 ^ 1074)))
   \<and> format_throughput example_runtime (JFloat (Fin (1 / 2 ^ 1074))) 1
       = Inr (PInf, ''inf Gops/s'')
   \<and> \<not> two_decimals ''inf''"
proof -
  have p: "py_gt_zero (JInt 1)" "py_gt_zero (JFloat (Fin (1 / 2 ^ 1074)))"
    by (simp_all add: py_gt_zero_def)
  have o: "throughput_overflows (10 ^ 300) (JInt 1)"
    by (simp add: throughput_overflows_def float_limit_def)
  have n: "\<not> throughput_overflows 1 (JFloat (Fin (1 / 2 ^ 1074)))"
    using float_limit_big by (simp add: throughput_overflows_def)
  have "throughput_value 1 (JFloat (Fin a)) = to_float (1000000000 / a)" for a
    by (simp add: throughput_value_def to_float_numeral scaled_def)
  moreover have "float_limit \<le> 1000000000 / (1 / 2 ^ 1074)"
    by (simp add: float_limit_def)
  then have "to_float (1000000000 / (1 / 2 ^ 1074)) = PInf"
    by (simp only: to_float_def if_True)
  ultimately have v: "throughput_value 1 (JFloat (Fin (1 / 2 ^ 1074))) = PInf"
    by (simp only:)
  have t: "fmt_2f example_runtime (throughput_shown PInf) @ throughput_unit PInf
             = ''inf Gops/s''"
    by (simp add: example_runtime_def throughput_shown_def throughput_unit_def at_least_def
          scaled_def cpython_fmt_2f_def)
  have d: "\<not> two_decimals ''inf''" by (simp add: two_decimals_def)
  from p o n v t d format_throughput_eq[OF p(1), of example_runtime "10 ^ 300"]
    format_throughput_eq[OF p(2), of example_runtime 1]
  show ?thesis by simp
qed

section \<open>Claims about load\_existing\_run\_ids\<close>


lemma read_rows_append:
  "list_all readable before \<Longrightarrow>
   read_rows fns (before @ after) E = read_rows fns after (fst (read_rows fns before E))"
proof (induction before arbitrary: E)
  case Nil
  then show ?case by simp
next
  case (Cons l ls)
  then show ?case by (cases l) (simp_all add: readable_def)
qed

lemma read_rows_union:
  "fst (read_rows fns ls E) = E \<union> fst (read_rows fns ls {})"
proof (induction ls arbitrary: E)
  case Nil
  then show ?case by simp
next
  case (Cons l ls)
  show ?case
  proof (cases l)
    case Bad
    then show ?thesis by simp
  next
    case (Row row)
    show ?thesis
    proof (cases "oversize row \<or> row = []")
      case True
      with Row Cons.IH[of E] show ?thesis by auto
    next
      case False
      with Row Cons.IH[of "insert (row_key fns row) E"] Cons.IH[of "{row_key fns row}"]
      show ?thesis by auto
    qed
  qed
qed

lemma read_rows_written:
  "list_all (\<lambda>r. readable (writerow rt r)) rs \<Longrightarrow>
   read_rows fieldnames (map (writerow rt) rs) E = (E \<union> key_of ` set rs, False)"
proof (induction rs arbitrary: E)
  case Nil
  then show ?case by simp
next
  case (Cons r rs)
  have ne: "map (field_text rt r) fieldnames \<noteq> []"
    by (simp add: fieldnames_def)
  from Cons.prems have "\<not> oversize (map (field_text rt r) fieldnames)"
    and "list_all (\<lambda>r. readable (writerow rt r)) rs"
    by (simp_all add: readable_def writerow_def)
  with Cons.IH[of "insert (key_of r) E"] ne show ?case
    by (simp add: writerow_def row_key_writerow)
qed

lemma code_points_long_tag: "length (code_points example_long_tag) = 131073"
proof -
  have "code_points (replicate n CHR ''x'') = replicate n 120" for n
    by (induction n) (simp_all add: utf8_width_def utf8_scalar_def)
  then show ?thesis by (simp add: example_long_tag_def)
qed

lemma oversize_long_tag: "oversize (row @ [example_long_tag])"
  by (simp add: oversize_def field_size_limit_def code_points_long_tag)

lemma example_readable:
  "readable (Row fieldnames)" "readable example_row" "\<not> readable example_long_row"
proof -
  show "readable (Row fieldnames)"
    by (simp add: readable_def oversize_def fieldnames_def field_size_limit_def
          utf8_width_def utf8_scalar_def)
  show "readable example_row"
    by (simp add: readable_def oversize_def example_row_def field_size_limit_def
          utf8_width_def utf8_scalar_def)
  from oversize_long_tag[of "[''20240102_120000'', ''compare_get'', ''insert/200'', ''insert'',
      ''200'', ''500.0'', ''520.0'', ''400000000.0'', ''400.00 Mops/s'',
      ''2024-01-02T12:00:00'']"]
  show "\<not> readable example_long_row"
    by (simp add: readable_def example_long_row_def)
qed






subsection \<open>Reading back what the exporter wrote\<close>

lemma appended_empty: "key_of ` set rs \<subseteq> E \<Longrightarrow> appended E rs = []"
proof -
  assume "key_of ` set rs \<subseteq> E"
  then have "key_of ` set (appended E rs) = {}"
    unfolding appended_keys by auto
  then show ?thesis by simp
qed

lemma appended_subset: "set (appended E rs) \<subseteq> set rs"
  by (auto simp: appended_def first_seen_def)

lemma load_after_export:
  assumes ok: "table_ok d"
    and fits: "list_all (\<lambda>r. readable (writerow rt r)) rs"
    and load: "load_existing_run_ids (Reachable d) = Inr E"
  shows "load_existing_run_ids (Reachable (dest_after (export_to_csv rt rs d E)))
           = Inr (E \<union> key_of ` set rs)"
proof (cases "appended E rs = []")
  case True
  then have "key_of ` set (appended E rs) = {}" by simp
  then have "key_of ` set rs \<subseteq> E"
    unfolding appended_keys by auto
  then have "E \<union> key_of ` set rs = E" by auto
  with True load show ?thesis
    by (simp add: export_to_csv_eq)
next
  case False
  let ?ap = "appended E rs"
  have keys: "E \<union> key_of ` set ?ap = E \<union> key_of ` set rs"
    unfolding appended_keys by auto
  from fits appended_subset[of E rs] have fits': "list_all (\<lambda>r. readable (writerow rt r)) ?ap"
    by (auto simp: list_all_iff)
  have h: "\<not> oversize fieldnames"
    by (simp add: oversize_def fieldnames_def field_size_limit_def utf8_width_def
          utf8_scalar_def)
  show ?thesis
  proof (cases d)
    case Missing
    with load have e: "E = {}" by (simp add: load_existing_run_ids_def)
    from fits' have "list_all (\<lambda>r. readable (writerow rt r)) (appended {} rs)"
      unfolding e .
    from read_rows_written[OF this] e Missing False keys show ?thesis
      by (simp add: export_to_csv_eq lines_of_def file_exists_def load_existing_run_ids_def
            read_table_def h)
  next
    case (Present ls)
    show ?thesis
    proof (cases ls)
      case Nil
      with Present load have e: "E = {}"
        by (simp add: load_existing_run_ids_def read_table_def)
      from fits' have "list_all (\<lambda>r. readable (writerow rt r)) (appended {} rs)"
        unfolding e .
      from read_rows_written[OF this] e Nil Present False keys show ?thesis
        by (simp add: export_to_csv_eq lines_of_def file_exists_def load_existing_run_ids_def
              read_table_def h)
    next
      case (Cons l rest)
      with ok Present have nb: "list_all readable rest" and l: "l = Row fieldnames"
        by (simp_all add: table_ok_def)
      have E: "fst (read_rows fieldnames rest {}) = E"
        using load Present Cons l by (simp add: load_existing_run_ids_def read_table_def h)
      have "load_existing_run_ids
              (Reachable (Present (Row fieldnames # rest @ map (writerow rt) ?ap)))
              = Inr (fst (read_rows fieldnames (rest @ map (writerow rt) ?ap) {}))"
        by (simp add: load_existing_run_ids_def read_table_def h)
      also have "fst (read_rows fieldnames (rest @ map (writerow rt) ?ap) {})
                   = E \<union> key_of ` set ?ap"
        by (simp only: read_rows_append[OF nb] E read_rows_written[OF fits'] fst_conv)
      finally show ?thesis
        using False keys Present Cons l
        by (simp add: export_to_csv_eq lines_of_def file_exists_def)
    qed
  qed
qed

section \<open>Claims about process\_estimates\_file\<close>

lemma code_points_ascii:
  "list_all (\<lambda>c. (of_char c :: nat) < 128) s \<Longrightarrow> code_points s = map of_char s"
  by (induction s) (simp_all add: utf8_width_def utf8_scalar_def)

lemma digit_code:
  "c \<in> set ''0123456789'' \<longleftrightarrow> 48 \<le> (of_char c :: nat) \<and> (of_char c :: nat) \<le> 57"
proof
  assume "48 \<le> (of_char c :: nat) \<and> (of_char c :: nat) \<le> 57"
  then have "(of_char c :: nat) \<in> of_char ` set ''0123456789''"
    by (simp, arith)
  then obtain d where d: "d \<in> set ''0123456789''" and "(of_char c :: nat) = of_char d"
    by blast
  then have "c = d" by simp
  with d show "c \<in> set ''0123456789''" by simp
next
  assume "c \<in> set ''0123456789''"
  then show "48 \<le> (of_char c :: nat) \<and> (of_char c :: nat) \<le> 57"
    by auto
qed

lemma py_int_from_eq:
  "py_int_from rt acc cps =
     (if list_all (\<lambda>cp. case digit_kind rt cp of Decimal d \<Rightarrow> True | _ \<Rightarrow> False) cps
      then Inr (foldl (\<lambda>a cp. 10 * a + (case digit_kind rt cp of Decimal d \<Rightarrow> int d | _ \<Rightarrow> 0))
                  acc cps)
      else Inl ValueError)"
  by (induction cps arbitrary: acc) (simp_all split: digit_class.splits)

lemma decimal_text_isdigit: "decimal_text rt s \<Longrightarrow> isdigit rt s"
  by (auto simp: decimal_text_def isdigit_def list_all_iff split: digit_class.splits)

lemma size_n_eq: "size_n rt sz = operation_count rt sz"
proof (cases "decimal_text rt sz")
  case True
  then have "sz \<noteq> []"
    and "list_all (\<lambda>cp. case digit_kind rt cp of Decimal d \<Rightarrow> True | _ \<Rightarrow> False)
           (code_points sz)"
    by (simp_all add: decimal_text_def)
  with True decimal_text_isdigit[OF True] show ?thesis
    by (auto simp: size_n_def py_int_def py_int_from_eq operation_count_def convertible_def
          decimal_value_def)
next
  case False
  then have "sz = [] \<or> \<not> list_all (\<lambda>cp. case digit_kind rt cp of Decimal d \<Rightarrow> True | _ \<Rightarrow> False)
           (code_points sz)"
    by (simp add: decimal_text_def)
  with False show ?thesis
    by (auto simp: size_n_def py_int_def py_int_from_eq operation_count_def isdigit_def)
qed

lemma ascii_decimal_text:
  assumes "list_all (\<lambda>c. (of_char c :: nat) < 128) s"
  shows "decimal_text rt s = nonneg_integer_text s"
proof -
  have "(case digit_kind rt (of_char c) of Decimal d \<Rightarrow> True | _ \<Rightarrow> False)
          = (c \<in> set ''0123456789'')" if "c \<in> set s" for c
  proof -
    from that assms have "(of_char c :: nat) < 128" by (simp add: list_all_iff)
    then show ?thesis
      by (simp add: digit_kind_def digit_code del: set_simps)
  qed
  then show ?thesis
    by (simp add: decimal_text_def nonneg_integer_text_def code_points_ascii[OF assms]
          list_all_iff del: set_simps)
qed

lemma nonneg_integer_text_ascii:
  assumes "nonneg_integer_text s"
  shows "list_all (\<lambda>c. (of_char c :: nat) < 128) s"
proof -
  from assms have "\<forall>c\<in>set s. c \<in> set ''0123456789''"
    unfolding nonneg_integer_text_def by (rule conjunct2)
  then have "\<forall>c\<in>set s. 48 \<le> (of_char c :: nat) \<and> (of_char c :: nat) \<le> 57"
    by (simp only: digit_code)
  then have "\<forall>c\<in>set s. (of_char c :: nat) < 128"
    by fastforce
  then show ?thesis by (simp only: list_all_iff)
qed

lemma ascii_decimal_value_eq:
  assumes "nonneg_integer_text s"
  shows "decimal_value rt s = ascii_decimal_value s"
proof -
  have d: "(case digit_kind rt (of_char c) of Decimal d \<Rightarrow> int d | _ \<Rightarrow> 0)
          = int (of_char c) - 48" if "c \<in> set s" for c
  proof -
    from that assms have "c \<in> set ''0123456789''" by (simp add: nonneg_integer_text_def)
    then have "48 \<le> (of_char c :: nat) \<and> (of_char c :: nat) \<le> 57"
      by (simp only: digit_code)
    then show ?thesis by (simp add: digit_kind_def)
  qed
  have "foldl (\<lambda>a cp. 10 * a + (case digit_kind rt cp of Decimal d \<Rightarrow> int d | _ \<Rightarrow> 0)) acc
          (map of_char t)
        = foldl (\<lambda>a c. 10 * a + (int (of_char c) - 48)) acc t" if "set t \<subseteq> set s" for t acc
    using that by (induction t arbitrary: acc) (simp_all add: d)
  from this[of s 0] show ?thesis
    by (simp add: decimal_value_def ascii_decimal_value_def
          code_points_ascii[OF nonneg_integer_text_ascii[OF assms]])
qed

lemma process_estimates_file_single:
  assumes "process_estimates_file rt estimates_file bench_name tname source tg = [r]"
  obtains data mtime where "estimates_file = Some (File (Some data) mtime)"
    and "build_record rt (Some data) mtime bench_name tname tg = Inr r"
proof -
  from assms obtain content mtime where f: "estimates_file = Some (File content mtime)"
    and b: "build_record rt content mtime bench_name tname tg = Inr r"
    by (auto simp: process_estimates_file_def split: option.splits fsnode.splits sum.splits)
  from b obtain data where "content = Some data"
    by (cases content) (simp_all add: build_record_def)
  with f b that show thesis by simp
qed

lemma process_estimates_file_mem:
  "r \<in> set (process_estimates_file rt estimates_file bench_name tname source tg) \<Longrightarrow>
     process_estimates_file rt estimates_file bench_name tname source tg = [r]"
  by (auto simp: process_estimates_file_def split: option.splits fsnode.splits sum.splits)

lemma build_record_fields:
  assumes "build_record rt (Some data) mtime bench_name tname tg = Inr r"
  shows "test_name r = tname" and "operation r = operation_of tname"
    and "size_s r = size_of tname"
  using assms
  by (auto simp: build_record_def split: option.splits sum.splits prod.splits)

lemma example_rt:
  "strftime_run_id example_runtime 1704110400 = Some ''20240101_120000''"
  "isoformat example_runtime 1704110400 = Some ''2024-01-01T12:00:00''"
  "fmt_2f example_runtime = cpython_fmt_2f"
  "round2 example_runtime x = x"
  "int_max_str_digits example_runtime = 4300"
  by (simp_all add: example_runtime_def)

lemma example_unicode_digit:
  "unicode_digit example_runtime 178 = OtherDigit"
  "unicode_digit example_runtime 1633 = Decimal 1"
  "unicode_digit example_runtime 1634 = Decimal 2"
  "unicode_digit example_runtime 1635 = Decimal 3"
  by (simp_all add: example_runtime_def)

lemmas size_eval =
  size_n_def isdigit_def py_int_def digit_kind_def utf8_width_def utf8_scalar_def example_rt
  example_unicode_digit

lemma example_sizes:
  "size_n example_runtime ''100'' = 100"
  "size_n example_runtime ''N/A'' = 1"
  "size_n example_runtime ''+5'' = 1"
  by (simp_all add: size_eval)

lemma example_format:
  "format_throughput example_runtime (JFloat (Fin 500)) 100
     = Inr (Fin 200000000, ''200.00 Mops/s'')"
  "format_throughput example_runtime (JFloat (Fin 500)) 1 = Inr (Fin 2000000, ''2.00 Mops/s'')"
proof -
  have p: "py_gt_zero (JFloat (Fin 500))" by (simp add: py_gt_zero_def)
  from format_throughput_eq[OF p, of example_runtime 100] example_throughput example_display
  show "format_throughput example_runtime (JFloat (Fin 500)) 100
     = Inr (Fin 200000000, ''200.00 Mops/s'')"
    by (simp add: example_rt)
  from format_throughput_eq[OF p, of example_runtime 1] example_throughput example_display
  show "format_throughput example_runtime (JFloat (Fin 500)) 1
     = Inr (Fin 2000000, ''2.00 Mops/s'')"
    by (simp add: example_rt)
qed

lemmas example_eval =
  process_estimates_file_def build_record_def get_run_id_from_file_def example_rt
  example_estimates_def point_estimate_def dict_get_def py_round2_def size_of_def
  operation_of_def example_sizes example_format

lemma example_process:
  "process_estimates_file example_runtime (Some (File (Some example_estimates) 1704110400))
     ''compare_get'' ''insert/100'' ''new'' tg
   = [example_record ''20240101_120000'' ''insert/100'' tg]"
  by (simp add: example_eval example_record_def)

text \<open>
  C7 (amended). The operation count handed to the throughput calculator is the value of
  the size field when that field is a non-empty string of decimal digits of no more
  digits than the interpreter converts, and 1 for every other size string. For a size
  of ASCII characters that means: the value when the size is a non-empty string of the
  digits \<open>0\<close> to \<open>9\<close>, and 1 otherwise, as for \<^verbatim>\<open>N/A\<close>, a signed number or other text.
  The throughput fields of every record are those \<open>format_throughput\<close> computes from the
  median and that count.
\<close>

theorem size_is_operation_count:
  "size_n rt sz = (if decimal_text rt sz \<and> convertible rt sz then decimal_value rt sz else 1)
   \<and> (nonneg_integer_text sz \<and> convertible rt sz \<longrightarrow> size_n rt sz = ascii_decimal_value sz)
   \<and> (list_all (\<lambda>c. (of_char c :: nat) < 128) sz \<and> \<not> nonneg_integer_text sz \<longrightarrow>
        size_n rt sz = 1)
   \<and> (process_estimates_file rt estimates_file bench_name tname source tg = [r] \<longrightarrow>
        (\<exists>data mtime median ops pretty.
           estimates_file = Some (File (Some data) mtime)
           \<and> point_estimate data ''median'' = Inr median
           \<and> format_throughput rt median (operation_count rt (size_s r)) = Inr (ops, pretty)
           \<and> throughput_ops_sec r = round2 rt ops
           \<and> throughput_pretty r = pretty))"
proof -
  have general: "size_n rt sz
      = (if decimal_text rt sz \<and> convertible rt sz then decimal_value rt sz else 1)"
    using size_n_eq[of rt sz] by (simp add: operation_count_def)
  have digits: "size_n rt sz = ascii_decimal_value sz"
    if "nonneg_integer_text sz \<and> convertible rt sz"
  proof -
    from that have n: "nonneg_integer_text sz" by simp
    from ascii_decimal_text[OF nonneg_integer_text_ascii[OF n], of rt] n
    have "decimal_text rt sz" by simp
    with general that ascii_decimal_value_eq[OF n, of rt] show ?thesis by simp
  qed
  have other: "size_n rt sz = 1"
    if "list_all (\<lambda>c. (of_char c :: nat) < 128) sz \<and> \<not> nonneg_integer_text sz"
  proof -
    from that ascii_decimal_text[of sz rt] have "\<not> decimal_text rt sz" by simp
    with general show ?thesis by simp
  qed
  have rec: "\<exists>data mtime median ops pretty.
           estimates_file = Some (File (Some data) mtime)
           \<and> point_estimate data ''median'' = Inr median
           \<and> format_throughput rt median (operation_count rt (size_s r)) = Inr (ops, pretty)
           \<and> throughput_ops_sec r = round2 rt ops
           \<and> throughput_pretty r = pretty"
    if "process_estimates_file rt estimates_file bench_name tname source tg = [r]"
  proof -
    from that obtain data mtime where f: "estimates_file = Some (File (Some data) mtime)"
      and b: "build_record rt (Some data) mtime bench_name tname tg = Inr r"
      by (rule process_estimates_file_single)
    from b obtain median ops pretty where
      "point_estimate data ''median'' = Inr median"
      "format_throughput rt median (size_n rt (size_of tname)) = Inr (ops, pretty)"
      "throughput_ops_sec r = round2 rt ops" "throughput_pretty r = pretty"
      "size_s r = size_of tname"
      by (auto simp: build_record_def split: option.splits sum.splits prod.splits)
    with f show ?thesis by (simp add: size_n_eq)
  qed
  from general digits other rec show ?thesis by blast
qed

text \<open>
  The sizes \<^verbatim>\<open>100\<close>, \<^verbatim>\<open>N/A\<close> and \<^verbatim>\<open>-5\<close>, the number 123 in Arabic-Indic digits, which
  \<^verbatim>\<open>int\<close> converts, and a superscript two, which passes \<^verbatim>\<open>isdigit\<close> and makes
  \<^verbatim>\<open>int\<close> raise.
\<close>

theorem size_is_operation_count_witness:
  "process_estimates_file example_runtime (Some (File (Some example_estimates) 1704110400))
     ''compare_get'' ''insert/100'' ''new'' []
     = [example_record ''20240101_120000'' ''insert/100'' []]
   \<and> nonneg_integer_text ''100'' \<and> convertible example_runtime ''100''
   \<and> size_n example_runtime ''100'' = 100
   \<and> \<not> nonneg_integer_text ''N/A'' \<and> size_n example_runtime ''N/A'' = 1
   \<and> \<not> nonneg_integer_text ''-5'' \<and> size_n example_runtime ''-5'' = 1
   \<and> decimal_text example_runtime [CHR 0xD9, CHR 0xA1, CHR 0xD9, CHR 0xA2, CHR 0xD9, CHR 0xA3]
   \<and> size_n example_runtime [CHR 0xD9, CHR 0xA1, CHR 0xD9, CHR 0xA2, CHR 0xD9, CHR 0xA3] = 123
   \<and> isdigit example_runtime [CHR 0xC2, CHR 0xB2]
   \<and> \<not> decimal_text example_runtime [CHR 0xC2, CHR 0xB2]
   \<and> size_n example_runtime [CHR 0xC2, CHR 0xB2] = 1
   \<and> format_throughput example_runtime (JFloat (Fin 500))
         (operation_count example_runtime
            (size_s (example_record ''20240101_120000'' ''insert/100'' [])))
       = Inr (Fin 200000000, ''200.00 Mops/s'')"
proof -
  let ?arabic = "[CHR 0xD9, CHR 0xA1, CHR 0xD9, CHR 0xA2, CHR 0xD9, CHR 0xA3]"
  let ?super = "[CHR 0xC2, CHR 0xB2]"
  have t: "nonneg_integer_text ''100''" "\<not> nonneg_integer_text ''N/A''"
    "\<not> nonneg_integer_text ''-5''"
    by (simp_all add: nonneg_integer_text_def)
  have a: "list_all (\<lambda>c. (of_char c :: nat) < 128) ''N/A''"
    "list_all (\<lambda>c. (of_char c :: nat) < 128) ''-5''"
    by simp_all
  have c: "convertible example_runtime ''100''" "convertible example_runtime ?arabic"
    by (simp_all add: convertible_def example_rt utf8_width_def utf8_scalar_def)
  have v: "ascii_decimal_value ''100'' = 100" "decimal_text example_runtime ''100''"
    "decimal_value example_runtime ''100'' = 100"
    by (simp_all add: ascii_decimal_value_def decimal_text_def decimal_value_def
          digit_kind_def utf8_width_def utf8_scalar_def)
  have u: "decimal_text example_runtime ?arabic" "decimal_value example_runtime ?arabic = 123"
    "isdigit example_runtime ?super" "\<not> decimal_text example_runtime ?super"
    by (simp_all add: decimal_text_def decimal_value_def isdigit_def digit_kind_def
          utf8_width_def utf8_scalar_def example_unicode_digit)
  have s: "size_s (example_record ''20240101_120000'' ''insert/100'' []) = ''100''"
    by (simp add: example_record_def)
  from size_is_operation_count[of example_runtime "''100''"]
    size_is_operation_count[of example_runtime "''N/A''"]
    size_is_operation_count[of example_runtime ?arabic]
    size_is_operation_count[of example_runtime ?super]
    size_is_operation_count[of example_runtime "''-5''"
      "Some (File (Some example_estimates) 1704110400)" "''compare_get''" "''insert/100''"
      "''new''" "[]" "example_record ''20240101_120000'' ''insert/100'' []"]
    t a c v u s example_format(1) example_process[of "[]"]
  show ?thesis by (simp add: operation_count_def)
qed

text \<open>
  C7 as stated fails: the sizes \<^verbatim>\<open>+5\<close>, \<^verbatim>\<open>5\<close> after a blank and \<^verbatim>\<open>1_0\<close> parse as
  the non-negative integers 5, 5 and 10, and the operation count is 1 for each. The
  record of the test \<^verbatim>\<open>insert/+5\<close> has the throughput of one operation per
  measurement.
\<close>

theorem size_signed_counterexample:
  "int_literal_value ''+5'' = Some 5 \<and> size_n example_runtime ''+5'' = 1
   \<and> int_literal_value '' 5'' = Some 5 \<and> size_n example_runtime '' 5'' = 1
   \<and> int_literal_value ''1_0'' = Some 10 \<and> size_n example_runtime ''1_0'' = 1
   \<and> map throughput_pretty
        (process_estimates_file example_runtime
           (Some (File (Some example_estimates) 1704110400)) ''compare_get'' ''insert/+5''
           ''new'' [])
      = [''2.00 Mops/s'']"
proof -
  have p: "int_literal_value ''+5'' = Some 5" "int_literal_value '' 5'' = Some 5"
    "int_literal_value ''1_0'' = Some 10"
    by (simp_all add: int_literal_value_def blank_def)
  have n: "size_n example_runtime ''+5'' = 1" "size_n example_runtime '' 5'' = 1"
    "size_n example_runtime ''1_0'' = 1"
    by (simp_all add: size_eval)
  have r: "map throughput_pretty
        (process_estimates_file example_runtime
           (Some (File (Some example_estimates) 1704110400)) ''compare_get'' ''insert/+5''
           ''new'' [])
      = [''2.00 Mops/s'']"
    by (simp add: example_eval)
  from p n r show ?thesis by simp
qed




lemma example_param_results:
  "param_dir_results example_runtime ''new'' tg ''compare_get'' ''insert'' example_param_dir
     = [example_record ''20240101_120000'' ''insert/100'' tg]"
  by (simp add: param_dir_results_def example_param_dir_def estimates_at_def example_process)



section \<open>Claims about parse\_benchmark\_results\<close>

text \<open>
  C5 (amended). A test directory that holds a direct \<^verbatim>\<open>source/estimates.json\<close>
  contributes what processing that file yields and nothing else: exactly one record,
  named after the test directory, when the file can be processed, and none when it
  cannot (it is a directory or \<open>build_record\<close> raises). The parameter directories are
  not looked at: any other directory content with the same direct file gives the same
  result.
\<close>

theorem direct_layout_shadows_parameters:
  assumes "estimates_at entries source = Some f"
  shows "test_dir_results rt source tg bench_name (test_dir_name, Dir entries)
           = (case f of
                Dir sub \<Rightarrow> []
              | File content mtime \<Rightarrow>
                  (case build_record rt content mtime bench_name test_dir_name tg of
                     Inl e \<Rightarrow> []
                   | Inr result \<Rightarrow> [result]))
         \<and> length (test_dir_results rt source tg bench_name (test_dir_name, Dir entries)) \<le> 1
         \<and> (\<forall>r\<in>set (test_dir_results rt source tg bench_name (test_dir_name, Dir entries)).
               test_name r = test_dir_name)
         \<and> (\<forall>others. estimates_at others source = Some f \<longrightarrow>
               test_dir_results rt source tg bench_name (test_dir_name, Dir others)
                 = test_dir_results rt source tg bench_name (test_dir_name, Dir entries))"
proof -
  have eq: "test_dir_results rt source tg bench_name (test_dir_name, Dir es)
              = process_estimates_file rt (Some f) bench_name test_dir_name source tg"
    if "estimates_at es source = Some f" for es
    using that by (simp add: test_dir_results_def)
  have shape: "process_estimates_file rt (Some f) bench_name test_dir_name source tg
           = (case f of
                Dir sub \<Rightarrow> []
              | File content mtime \<Rightarrow>
                  (case build_record rt content mtime bench_name test_dir_name tg of
                     Inl e \<Rightarrow> []
                   | Inr result \<Rightarrow> [result]))"
    by (simp add: process_estimates_file_def split: fsnode.splits)
  have len: "length (process_estimates_file rt (Some f) bench_name test_dir_name source tg) \<le> 1"
    by (simp add: process_estimates_file_def split: fsnode.splits sum.splits)
  have name: "\<forall>r\<in>set (process_estimates_file rt (Some f) bench_name test_dir_name source tg).
                test_name r = test_dir_name"
  proof
    fix r assume "r \<in> set (process_estimates_file rt (Some f) bench_name test_dir_name source tg)"
    then have "process_estimates_file rt (Some f) bench_name test_dir_name source tg = [r]"
      by (rule process_estimates_file_mem)
    then obtain data mtime where
      "build_record rt (Some data) mtime bench_name test_dir_name tg = Inr r"
      by (rule process_estimates_file_single)
    then show "test_name r = test_dir_name"
      by (simp add: build_record_fields)
  qed
  from eq[OF assms] eq shape len name show ?thesis by simp
qed

theorem direct_layout_shadows_parameters_witness:
  "estimates_at example_both_layouts ''new''
     = Some (File (Some example_estimates) 1704110400)
   \<and> test_dir_results example_runtime ''new'' [] ''compare_get''
       (''insert'', Dir example_both_layouts) = [example_direct_record]
   \<and> test_name example_direct_record = ''insert''"
proof -
  have at: "estimates_at example_both_layouts ''new''
     = Some (File (Some example_estimates) 1704110400)"
    by (simp add: estimates_at_def example_both_layouts_def)
  have b: "build_record example_runtime (Some example_estimates) 1704110400 ''compare_get''
             ''insert'' [] = Inr example_direct_record"
    by (simp add: example_eval example_direct_record_def)
  from direct_layout_shadows_parameters[OF at, of example_runtime "[]" "''compare_get''"
      "''insert''"] at b
  show ?thesis by (simp add: example_direct_record_def)
qed

text \<open>
  C5 as stated fails: with a direct estimates file that is not valid JSON and a
  parameter directory whose estimates file is fine, the test directory yields no
  record at all.
\<close>

theorem broken_direct_file_counterexample:
  "estimates_at example_broken_direct ''new'' = Some (File None 1704110400)
   \<and> param_dir_results example_runtime ''new'' [] ''compare_get'' ''insert'' example_param_dir
       = [example_record ''20240101_120000'' ''insert/100'' []]
   \<and> test_dir_results example_runtime ''new'' [] ''compare_get''
       (''insert'', Dir example_broken_direct) = []"
  by (simp add: example_param_results estimates_at_def example_broken_direct_def
        test_dir_results_def process_estimates_file_def build_record_def)

section \<open>Claims about the whole run\<close>

lemma example_parse:
  "parse_benchmark_results example_runtime (Some example_tree) ''new'' None tg
     = Inr [example_record ''20240101_120000'' ''insert/100'' tg]"
  by (simp add: parse_benchmark_results_def example_tree_def benchmark_dir_results_def
        test_dir_results_def param_dir_results_def estimates_at_def example_process)

lemma example_run_defs:
  "writerow example_runtime (example_record ''20240101_120000'' ''insert/100'' []) = example_row"
  "key_of (example_record ''20240101_120000'' ''insert/100'' tg) = ''20240101_120000:insert/100''"
  by (simp_all add: writerow_def field_text_def fieldnames_def example_record_def
        example_runtime_def example_row_def key_of_def)

lemma example_long_run:
  "writerow example_runtime (example_record ''20240101_120000'' ''insert/100'' example_long_tag)
     = Row ([''20240101_120000'', ''compare_get'', ''insert/100'', ''insert'', ''100'',
             ''500.0'', ''520.0'', ''200000000.0'', ''200.00 Mops/s'',
             ''2024-01-01T12:00:00''] @ [example_long_tag])"
  by (simp add: writerow_def field_text_def fieldnames_def example_record_def
        example_runtime_def)

text \<open>
  C1 (amended). Provided the destination is at first missing, empty or a table under the
  fixed header all of whose lines can be read, and every row the exporter writes for
  the discovered records can be read back (no field exceeds the field size limit of the
  csv reader), running discovery and export twice over the same result files, with the
  same interpreter and time zone, writes nothing the second time: every record
  discovered has its identity key among the keys \<open>load_existing_run_ids\<close> reads from the
  destination the first run left, so \<open>export_to_csv\<close> returns 0 and the destination
  stays as it is.
\<close>

theorem main_second_run_writes_nothing:
  assumes ok: "table_ok d0"
    and fits: "\<forall>results. parse_benchmark_results rt criterion_dir source bench tg = Inr results
                 \<longrightarrow> list_all (\<lambda>r. readable (writerow rt r)) results"
    and run1: "main rt criterion_dir source bench tg (Reachable d0) = Inr (n1, p1)"
  shows "main rt criterion_dir source bench tg p1 = Inr (0, p1)
         \<and> (\<exists>d1 existing_ids.
               p1 = Reachable d1
               \<and> load_existing_run_ids p1 = Inr existing_ids
               \<and> (\<forall>results.
                     parse_benchmark_results rt criterion_dir source bench tg = Inr results
                     \<longrightarrow> (\<forall>r\<in>set results. key_of r \<in> existing_ids)
                         \<and> returned (export_to_csv rt results d1 existing_ids) = 0))"
proof -
  obtain E0 where E0: "load_existing_run_ids (Reachable d0) = Inr E0"
    by (cases d0) (simp_all add: load_existing_run_ids_def)
  show ?thesis
  proof (cases "parse_benchmark_results rt criterion_dir source bench tg")
    case (Inl e)
    with run1 E0 show ?thesis by (simp add: main_def)
  next
    case (Inr results)
    show ?thesis
    proof (cases "results = []")
      case True
      with Inr run1 E0 have p1: "p1 = Reachable d0" by (simp add: main_def)
      with True Inr E0 show ?thesis
        by (simp add: main_def export_to_csv_eq appended_Nil)
    next
      case False
      with Inr run1 E0 have p1: "p1 = Reachable (dest_after (export_to_csv rt results d0 E0))"
        by (simp add: main_def Let_def)
      let ?d1 = "dest_after (export_to_csv rt results d0 E0)"
      from fits Inr have "list_all (\<lambda>r. readable (writerow rt r)) results" by simp
      from load_after_export[OF ok this E0]
      have E1: "load_existing_run_ids (Reachable ?d1) = Inr (E0 \<union> key_of ` set results)" .
      have known: "key_of ` set results \<subseteq> E0 \<union> key_of ` set results" by simp
      from appended_empty[OF known]
      have none: "appended (E0 \<union> key_of ` set results) results = []" .
      from Inr False E1 none have second: "main rt criterion_dir source bench tg p1 = Inr (0, p1)"
        by (simp add: p1 main_def Let_def export_to_csv_eq)
      from Inr E1 none
      have "p1 = Reachable ?d1
            \<and> load_existing_run_ids p1 = Inr (E0 \<union> key_of ` set results)
            \<and> (\<forall>results'.
                  parse_benchmark_results rt criterion_dir source bench tg = Inr results'
                  \<longrightarrow> (\<forall>r\<in>set results'. key_of r \<in> E0 \<union> key_of ` set results)
                      \<and> returned (export_to_csv rt results' ?d1
                                     (E0 \<union> key_of ` set results)) = 0)"
        by (simp add: p1 export_to_csv_eq)
      then have "\<exists>d1 existing_ids.
               p1 = Reachable d1
               \<and> load_existing_run_ids p1 = Inr existing_ids
               \<and> (\<forall>results.
                     parse_benchmark_results rt criterion_dir source bench tg = Inr results
                     \<longrightarrow> (\<forall>r\<in>set results. key_of r \<in> existing_ids)
                         \<and> returned (export_to_csv rt results d1 existing_ids) = 0)"
        by blast
      with second show ?thesis by simp
    qed
  qed
qed

text \<open>The example tree exported to a missing destination, twice.\<close>

theorem main_second_run_writes_nothing_witness:
  "table_ok Missing
   \<and> readable example_row
   \<and> main example_runtime (Some example_tree) ''new'' None [] (Reachable Missing)
       = Inr (1, Reachable (Present [Row fieldnames, example_row]))
   \<and> main example_runtime (Some example_tree) ''new'' None []
         (Reachable (Present [Row fieldnames, example_row]))
       = Inr (0, Reachable (Present [Row fieldnames, example_row]))"
proof -
  have ok: "table_ok Missing" by (simp add: table_ok_def)
  have fits: "\<forall>results.
      parse_benchmark_results example_runtime (Some example_tree) ''new'' None [] = Inr results
      \<longrightarrow> list_all (\<lambda>r. readable (writerow example_runtime r)) results"
    by (simp add: example_parse example_run_defs example_readable)
  have run1: "main example_runtime (Some example_tree) ''new'' None [] (Reachable Missing)
       = Inr (1, Reachable (Present [Row fieldnames, example_row]))"
    by (simp add: main_def example_parse export_to_csv_eq appended_Cons appended_Nil
          example_run_defs load_existing_run_ids_def lines_of_def file_exists_def)
  from main_second_run_writes_nothing[OF ok fits run1] ok run1 example_readable(2)
  show ?thesis by simp
qed

text \<open>
  C1 as stated fails. When the destination is a non-empty file with other columns, no
  header is written, the reader finds neither \<^verbatim>\<open>run_id\<close> nor \<^verbatim>\<open>test_name\<close> in
  any row, and the second run writes the same record again. And when the tag is longer
  than the field size limit of the csv reader, the row the first run writes to a missing
  destination cannot be read back, and the second run writes it again.
\<close>

theorem main_foreign_table_counterexample:
  "main example_runtime (Some example_tree) ''new'' None [] (Reachable example_history)
     = Inr (1, Reachable (Present (lines_of example_history @ [example_row])))
   \<and> main example_runtime (Some example_tree) ''new'' None []
         (Reachable (Present (lines_of example_history @ [example_row])))
     = Inr (1, Reachable (Present (lines_of example_history @ [example_row, example_row])))
   \<and> main example_runtime (Some example_tree) ''new'' None example_long_tag
         (Reachable Missing)
     = Inr (1, Reachable (Present
          [Row fieldnames,
           writerow example_runtime
             (example_record ''20240101_120000'' ''insert/100'' example_long_tag)]))
   \<and> main example_runtime (Some example_tree) ''new'' None example_long_tag
         (Reachable (Present
          [Row fieldnames,
           writerow example_runtime
             (example_record ''20240101_120000'' ''insert/100'' example_long_tag)]))
     = Inr (1, Reachable (Present
          [Row fieldnames,
           writerow example_runtime
             (example_record ''20240101_120000'' ''insert/100'' example_long_tag),
           writerow example_runtime
             (example_record ''20240101_120000'' ''insert/100'' example_long_tag)]))"
proof -
  have h: "\<not> oversize fieldnames"
    using example_readable(1) by (simp add: readable_def)
  have foreign: "\<not> oversize [''timestamp'', ''benchmark'', ''test'', ''operation'', ''size'',
                   ''median_ns'', ''mean_ns'', ''median_us'', ''median_ms'']"
    "\<not> oversize [''2024-01-01T12:00:00.000001'', ''compare_get'', ''insert'', ''insert'',
                   ''N/A'', ''500.0'', ''520.0'', ''0.5'', ''0.0005'']"
    "\<not> oversize [''20240101_120000'', ''compare_get'', ''insert/100'', ''insert'', ''100'',
          ''500.0'', ''520.0'', ''200000000.0'', ''200.00 Mops/s'',
          ''2024-01-01T12:00:00'', []]"
    by (simp_all add: oversize_def field_size_limit_def utf8_width_def utf8_scalar_def)
  from oversize_long_tag[of "[''20240101_120000'', ''compare_get'', ''insert/100'', ''insert'',
      ''100'', ''500.0'', ''520.0'', ''200000000.0'', ''200.00 Mops/s'',
      ''2024-01-01T12:00:00'']"]
  have o: "oversize [''20240101_120000'', ''compare_get'', ''insert/100'', ''insert'',
      ''100'', ''500.0'', ''520.0'', ''200000000.0'', ''200.00 Mops/s'',
      ''2024-01-01T12:00:00'', example_long_tag]"
    by simp
  have a: "main example_runtime (Some example_tree) ''new'' None [] (Reachable example_history)
     = Inr (1, Reachable (Present (lines_of example_history @ [example_row])))"
    by (simp add: main_def example_parse export_to_csv_eq appended_Cons appended_Nil
        example_run_defs load_existing_run_ids_def lines_of_def file_exists_def
        example_history_def read_table_def row_key_def dict_row_def row_get_def foreign)
  have b: "main example_runtime (Some example_tree) ''new'' None []
         (Reachable (Present (lines_of example_history @ [example_row])))
     = Inr (1, Reachable (Present (lines_of example_history @ [example_row, example_row])))"
    by (simp add: main_def example_parse export_to_csv_eq appended_Cons appended_Nil
        example_run_defs load_existing_run_ids_def lines_of_def file_exists_def
        example_history_def read_table_def row_key_def dict_row_def row_get_def
        example_row_def foreign)
  have c: "main example_runtime (Some example_tree) ''new'' None example_long_tag
         (Reachable Missing)
     = Inr (1, Reachable (Present
          [Row fieldnames,
           writerow example_runtime
             (example_record ''20240101_120000'' ''insert/100'' example_long_tag)]))"
    by (simp add: main_def example_parse export_to_csv_eq appended_Cons appended_Nil
          example_run_defs load_existing_run_ids_def lines_of_def file_exists_def)
  have d: "main example_runtime (Some example_tree) ''new'' None example_long_tag
         (Reachable (Present
          [Row fieldnames,
           writerow example_runtime
             (example_record ''20240101_120000'' ''insert/100'' example_long_tag)]))
     = Inr (1, Reachable (Present
          [Row fieldnames,
           writerow example_runtime
             (example_record ''20240101_120000'' ''insert/100'' example_long_tag),
           writerow example_runtime
             (example_record ''20240101_120000'' ''insert/100'' example_long_tag)]))"
    by (simp add: main_def example_parse export_to_csv_eq appended_Cons appended_Nil
          example_run_defs load_existing_run_ids_def lines_of_def file_exists_def
          read_table_def h example_long_run o)
  from a b c d show ?thesis by simp
qed

end
